theory Spec2Isabelle
  imports Main "HOL-Library.Sublist" "HOL-Library.Product_Lexorder"
begin

section \<open>The packaging workflow of kshana-desktop (backend-build)\<close>

text \<open>
  A shallow embedding of \<^verbatim>\<open>backend-build/build.py\<close>, \<^verbatim>\<open>backend-build/entry.py\<close> and
  \<^verbatim>\<open>backend-build/pyi_rth_google_adk_tools.py\<close>.

  The scripts are glue around a filesystem and external tools, so the model makes both
  explicit. A path is the list of its components below the filesystem root (absolute,
  normalised, no symbolic links; \<^verbatim>\<open>Path.resolve()\<close> is therefore the identity). The
  filesystem is a partial map from paths to nodes. Everything the scripts print and every
  subprocess they launch is appended to a trace. A Python exception is a value of type
  \<open>error\<close>, returned together with the state reached when it was raised.
\<close>

subsection \<open>Paths, filesystem, events, errors\<close>

type_synonym path = "string list"

datatype node = Dir | File string

type_synonym filesystem = "path \<Rightarrow> node option"

datatype error =
    FileNotFoundError string
  | NotADirectoryError string
  | FileExistsError string
  | CalledProcessError "string list"
  | RuntimeError string
  | ValueError
  | ImportError
  | OtherError string

datatype event =
    Print string
  | Exec "string list" "path option" "(string \<times> string) list"

record state =
  fs :: filesystem
  trace :: "event list"

text \<open>
  What the scripts cannot decide themselves is a parameter: where \<^verbatim>\<open>build.py\<close> lies
  (\<^verbatim>\<open>ROOT = Path(__file__).resolve().parent\<close>), what \<^verbatim>\<open>platform.system()\<close> answers,
  what a subprocess does to the filesystem and whether it fails (\<open>None\<close> is exit status 0),
  what \<^verbatim>\<open>subprocess.check_output\<close> returns, the interpreter's limit on the digits of a
  string that \<^verbatim>\<open>int\<close> converts (\<^verbatim>\<open>sys.get_int_max_str_digits()\<close>, 4300 unless configured;
  0 where there is no limit), and the wreck that a copy of a tree into itself leaves behind
  when it gives up.
\<close>

record world =
  ROOT :: path
  platform_system :: string
  subprocess_run :: "string list \<Rightarrow> path option \<Rightarrow> filesystem \<Rightarrow> error option \<times> filesystem"
  check_output :: "string list \<Rightarrow> error + string"
  int_max_str_digits :: nat
  failed_copy :: "path \<Rightarrow> path \<Rightarrow> filesystem \<Rightarrow> filesystem"

text \<open>The namespace built by \<^verbatim>\<open>parse_args\<close>.\<close>

record args =
  source_path :: "path option"
  ref :: string
  platform :: string
  clean :: bool
  python :: string

definition REPO_URL :: string where
  "REPO_URL = ''https://github.com/anveshane/kshana.git''"

definition BACKEND_SRC_DIR :: "world \<Rightarrow> path" where
  "BACKEND_SRC_DIR w = ROOT w @ [''kshana'']"

definition DIST_DIR :: "world \<Rightarrow> path" where
  "DIST_DIR w = ROOT w @ [''dist'']"

definition BUILD_DIR :: "world \<Rightarrow> path" where
  "BUILD_DIR w = ROOT w @ [''build-artifacts'']"

definition SPEC_PATH :: "world \<Rightarrow> path" where
  "SPEC_PATH w = ROOT w @ [''kshana.spec'']"

definition REQUIREMENTS_PATH :: "world \<Rightarrow> path" where
  "REQUIREMENTS_PATH w = ROOT w @ [''requirements.txt'']"

definition VENV_PATH :: "world \<Rightarrow> path" where
  "VENV_PATH w = ROOT w @ [''.venv'']"

text \<open>\<^verbatim>\<open>Path.parent\<close>: the parent of the root is the root.\<close>

definition parent :: "path \<Rightarrow> path" where
  "parent p = butlast p"

definition resolve :: "path \<Rightarrow> path" where
  "resolve p = p"

text \<open>\<^verbatim>\<open>str(path)\<close> on a POSIX host.\<close>

definition str_of_path :: "path \<Rightarrow> string" where
  "str_of_path p = (if p = [] then ''/'' else concat (map (\<lambda>c. ''/'' @ c) p))"

text \<open>\<^verbatim>\<open>sep.join(xs)\<close>.\<close>

fun join :: "string \<Rightarrow> string list \<Rightarrow> string" where
  "join sep [] = []"
| "join sep [x] = x"
| "join sep (x # y # ys) = x @ sep @ join sep (y # ys)"

definition exists :: "state \<Rightarrow> path \<Rightarrow> bool" where
  "exists s p = (fs s p \<noteq> None)"

definition print :: "string \<Rightarrow> state \<Rightarrow> state" where
  "print msg s = s\<lparr>trace := trace s @ [Print msg]\<rparr>"

text \<open>The glyphs the scripts print, as their UTF-8 bytes.\<close>

definition arrow :: string where
  "arrow = [CHR 0xE2, CHR 0x86, CHR 0x92]"

definition check_mark :: string where
  "check_mark = [CHR 0xE2, CHR 0x9C, CHR 0x93]"

definition check_box :: string where
  "check_box = [CHR 0xE2, CHR 0x9C, CHR 0x85]"

subsection \<open>\<^verbatim>\<open>run\<close>\<close>

text \<open>
  \<^verbatim>\<open>run\<close> prints the command line and runs it with \<^verbatim>\<open>check=True\<close>: a failing subprocess
  raises. The third argument lists the variables set on top of the inherited environment
  (empty for \<^verbatim>\<open>env=None\<close>).
\<close>

definition run :: "world \<Rightarrow> string list \<Rightarrow> path option \<Rightarrow> (string \<times> string) list \<Rightarrow> state
    \<Rightarrow> (error + unit) \<times> state" where
  "run w cmd cwd env s =
     (let s1 = s\<lparr>trace := trace s @ [Print (arrow @ '' '' @ join '' '' cmd), Exec cmd cwd env]\<rparr>;
          out = subprocess_run w cmd cwd (fs s1)
      in (case fst out of None \<Rightarrow> Inr () | Some e \<Rightarrow> Inl e, s1\<lparr>fs := snd out\<rparr>))"

subsection \<open>Library operations on the filesystem\<close>

text \<open>
  \<^verbatim>\<open>shutil.rmtree(p)\<close>: \<open>p\<close> must be a directory; the directory and everything below it
  disappear.
\<close>

definition rmtree :: "path \<Rightarrow> state \<Rightarrow> (error + unit) \<times> state" where
  "rmtree p s =
     (case fs s p of
        None \<Rightarrow> (Inl (FileNotFoundError (str_of_path p)), s)
      | Some (File c) \<Rightarrow> (Inl (NotADirectoryError (str_of_path p)), s)
      | Some Dir \<Rightarrow> (Inr (), s\<lparr>fs := (\<lambda>q. if prefix p q then None else fs s q)\<rparr>))"

text \<open>
  \<^verbatim>\<open>shutil.ignore_patterns(".git", "__pycache__", "*.pyc", ".venv", "dist", "build", "outputs")\<close>:
  an entry is left out when its name matches one of the patterns; the only wildcard is the
  leading star of \<^verbatim>\<open>*.pyc\<close>.
\<close>

definition ignored :: "string \<Rightarrow> bool" where
  "ignored name =
     (name \<in> set [''.git'', ''__pycache__'', ''.venv'', ''dist'', ''build'', ''outputs'']
      \<or> suffix ''.pyc'' name)"

definition is_file :: "node option \<Rightarrow> bool" where
  "is_file n = (case n of Some (File c) \<Rightarrow> True | _ \<Rightarrow> False)"

text \<open>No proper ancestor of \<open>p\<close> is a regular file, so that \<open>p\<close> can be created below them.\<close>

definition ancestors_ok :: "filesystem \<Rightarrow> path \<Rightarrow> bool" where
  "ancestors_ok f p = (\<not> list_ex (\<lambda>q. is_file (f q)) (prefixes (butlast p)))"

text \<open>
  \<^verbatim>\<open>os.makedirs(dst)\<close> for a \<open>dst\<close> that does not exist: it and its missing ancestors
  become directories.
\<close>

definition makedirs :: "path \<Rightarrow> filesystem \<Rightarrow> filesystem" where
  "makedirs dst f = (\<lambda>q. if prefix q dst \<and> f q = None then Some Dir else f q)"

text \<open>
  \<^verbatim>\<open>shutil.copytree(src, dst, ignore=..., dirs_exist_ok=False)\<close>: the entries of \<open>src\<close> are
  listed first (so \<open>src\<close> must be a directory), then \<open>dst\<close> is created with its missing
  ancestors (so it must not exist), then every listed entry that is not ignored is copied; a
  directory among them is copied in the same way, its entries being listed at that moment.

  A destination inside the source matters for this order. The copy runs into the
  destination, and then deeper and deeper into its own output until it gives up with an
  error, when the destination lies at least two levels below the source, the first
  directory on the way to it was there when the entries of the source were listed, and no
  name on the way is ignored. In every other case the copy ends: a directory made for the
  destination below a directory that is copied is copied with it, as an empty directory up
  to the first ignored name.
\<close>

definition runs_into_itself :: "filesystem \<Rightarrow> path \<Rightarrow> path \<Rightarrow> bool" where
  "runs_into_itself f src dst =
     (prefix src dst \<and> 2 \<le> length dst - length src
      \<and> f (take (Suc (length src)) dst) \<noteq> None
      \<and> \<not> list_ex ignored (drop (length src) dst))"

definition copied_entry :: "filesystem \<Rightarrow> path \<Rightarrow> path \<Rightarrow> path \<Rightarrow> node option" where
  "copied_entry f src dst rest =
     (if list_ex ignored rest then None
      else if f (src @ rest) = None \<and> prefix (src @ rest) dst \<and> 2 \<le> length rest
              \<and> f (take (Suc (length src)) dst) \<noteq> None
      then Some Dir
      else f (src @ rest))"

definition copytree :: "world \<Rightarrow> path \<Rightarrow> path \<Rightarrow> state \<Rightarrow> (error + unit) \<times> state" where
  "copytree w src dst s =
     (case fs s src of
        None \<Rightarrow> (Inl (FileNotFoundError (str_of_path src)), s)
      | Some (File c) \<Rightarrow> (Inl (NotADirectoryError (str_of_path src)), s)
      | Some Dir \<Rightarrow>
          if fs s dst \<noteq> None then (Inl (FileExistsError (str_of_path dst)), s)
          else if \<not> ancestors_ok (fs s) dst then (Inl (NotADirectoryError (str_of_path dst)), s)
          else if runs_into_itself (fs s) src dst
            then (Inl (OtherError ''copytree into itself''), s\<lparr>fs := failed_copy w src dst (fs s)\<rparr>)
          else (Inr (), s\<lparr>fs := (\<lambda>q.
                  if prefix dst q then copied_entry (fs s) src dst (drop (length dst) q)
                  else makedirs dst (fs s) q)\<rparr>))"

text \<open>\<^verbatim>\<open>Path.mkdir(parents=True, exist_ok=True)\<close>.\<close>

definition mkdir_p :: "path \<Rightarrow> state \<Rightarrow> (error + unit) \<times> state" where
  "mkdir_p p s =
     (case fs s p of
        Some Dir \<Rightarrow> (Inr (), s)
      | Some (File c) \<Rightarrow> (Inl (FileExistsError (str_of_path p)), s)
      | None \<Rightarrow>
          if \<not> ancestors_ok (fs s) p then (Inl (NotADirectoryError (str_of_path p)), s)
          else (Inr (), s\<lparr>fs := (\<lambda>q. if prefix q p \<and> fs s q = None then Some Dir else fs s q)\<rparr>))"

subsection \<open>\<^verbatim>\<open>ensure_backend_sources\<close>\<close>

definition local_candidate :: "world \<Rightarrow> path" where
  "local_candidate w = parent (parent (ROOT w)) @ [''kshana'']"

definition missing_source_msg :: "path \<Rightarrow> string" where
  "missing_source_msg source = ''Provided source path does not exist: '' @ str_of_path source"

definition existing_checkout_msg :: string where
  "existing_checkout_msg =
     check_mark @ '' Existing backend checkout detected. Delete it manually to re-clone.''"

definition copied_msg :: "path \<Rightarrow> string" where
  "copied_msg source = check_mark @ '' Copied backend from '' @ str_of_path source"

definition git_clone_cmd :: "world \<Rightarrow> string list" where
  "git_clone_cmd w = [''git'', ''clone'', REPO_URL, str_of_path (BACKEND_SRC_DIR w)]"

definition git_checkout_cmd :: "string \<Rightarrow> string list" where
  "git_checkout_cmd r = [''git'', ''checkout'', r]"

text \<open>
  The namespace is a mutable object that \<^verbatim>\<open>main\<close> goes on using, so the function returns
  it next to the state. A \<^verbatim>\<open>Path\<close> is always truthy: \<^verbatim>\<open>if args.source_path\<close> asks whether
  it is not \<^verbatim>\<open>None\<close>. A string is truthy when it is not empty.
\<close>

definition ensure_backend_sources :: "world \<Rightarrow> args \<Rightarrow> state \<Rightarrow> (error + unit) \<times> args \<times> state" where
  "ensure_backend_sources w a s =
     (let a1 = (if source_path a = None \<and> exists s (local_candidate w)
                then a\<lparr>source_path := Some (local_candidate w)\<rparr> else a)
      in case source_path a1 of
        Some sp \<Rightarrow>
          (let source = resolve sp in
           if \<not> exists s source then (Inl (FileNotFoundError (missing_source_msg source)), a1, s)
           else
             (case (if exists s (BACKEND_SRC_DIR w) then rmtree (BACKEND_SRC_DIR w) s else (Inr (), s)) of
                (Inl e, s1) \<Rightarrow> (Inl e, a1, s1)
              | (Inr u, s1) \<Rightarrow>
                  (case copytree w source (BACKEND_SRC_DIR w) s1 of
                     (Inl e, s2) \<Rightarrow> (Inl e, a1, s2)
                   | (Inr u, s2) \<Rightarrow> (Inr (), a1, print (copied_msg source) s2))))
      | None \<Rightarrow>
          if exists s (BACKEND_SRC_DIR w) then (Inr (), a1, print existing_checkout_msg s)
          else
            (case run w (git_clone_cmd w) None [] s of
               (Inl e, s1) \<Rightarrow> (Inl e, a1, s1)
             | (Inr u, s1) \<Rightarrow>
                 if ref a1 \<noteq> [] \<and> ref a1 \<noteq> ''main''
                 then (case run w (git_checkout_cmd (ref a1)) (Some (BACKEND_SRC_DIR w)) [] s1 of
                         (r, s2) \<Rightarrow> (r, a1, s2))
                 else (Inr (), a1, s1)))"

subsection \<open>\<^verbatim>\<open>ensure_python_version\<close>\<close>

text \<open>
  \<^verbatim>\<open>str.strip()\<close> and \<^verbatim>\<open>str.split(".")\<close> on ASCII text. The whitespace that
  \<^verbatim>\<open>strip\<close> removes includes the separators 0x1C to 0x1F.
\<close>

definition is_space :: "char \<Rightarrow> bool" where
  "is_space c = ((of_char c :: nat) \<in> set [9, 10, 11, 12, 13, 28, 29, 30, 31, 32])"

definition strip :: "string \<Rightarrow> string" where
  "strip s = rev (dropWhile is_space (rev (dropWhile is_space s)))"

fun split_on :: "char \<Rightarrow> string \<Rightarrow> string list" where
  "split_on d [] = [[]]"
| "split_on d (c # cs) =
     (if c = d then [] # split_on d cs
      else (case split_on d cs of x # xs \<Rightarrow> (c # x) # xs | [] \<Rightarrow> [[c]]))"

definition is_digit :: "char \<Rightarrow> bool" where
  "is_digit c = (48 \<le> (of_char c :: nat) \<and> (of_char c :: nat) \<le> 57)"

definition digit_val :: "char \<Rightarrow> int" where
  "digit_val c = int (of_char c) - 48"

fun parse_digits :: "int \<Rightarrow> string \<Rightarrow> int option" where
  "parse_digits acc [] = Some acc"
| "parse_digits acc [c] = (if is_digit c then Some (10 * acc + digit_val c) else None)"
| "parse_digits acc (c # d # ds) =
     (if is_digit c then parse_digits (10 * acc + digit_val c) (d # ds)
      else if c = CHR ''_'' \<and> is_digit d then parse_digits (10 * acc + digit_val d) ds
      else None)"

text \<open>
  \<^verbatim>\<open>int(part)\<close> for what it accepts in ASCII text: surrounding whitespace, which for
  \<^verbatim>\<open>int\<close> is tab, newline, vertical tab, form feed, carriage return and space only, then one
  sign, then decimal digits with single underscores between them. A string with more than
  640 digits and more digits than the interpreter's limit, when there is one, is refused.
  Anything else, text that is not ASCII included, is a \<^verbatim>\<open>ValueError\<close>.
\<close>

definition int_space :: "char \<Rightarrow> bool" where
  "int_space c = ((of_char c :: nat) \<in> set [9, 10, 11, 12, 13, 32])"

definition int_strip :: "string \<Rightarrow> string" where
  "int_strip s = rev (dropWhile int_space (rev (dropWhile int_space s)))"

definition too_many_digits :: "nat \<Rightarrow> string \<Rightarrow> bool" where
  "too_many_digits lim body =
     (0 < lim \<and> 640 < length (filter is_digit body) \<and> lim < length (filter is_digit body))"

definition py_int :: "nat \<Rightarrow> string \<Rightarrow> int option" where
  "py_int lim s =
     (let t = int_strip s;
          neg = (t \<noteq> [] \<and> hd t = CHR ''-'');
          body = (if t \<noteq> [] \<and> (hd t = CHR ''-'' \<or> hd t = CHR ''+'') then tl t else t)
      in case body of
           [] \<Rightarrow> None
         | d # ds \<Rightarrow>
             if is_digit d \<and> \<not> too_many_digits lim body
             then map_option (\<lambda>v. if neg then - v else v) (parse_digits (digit_val d) ds)
             else None)"

text \<open>
  \<^verbatim>\<open>major, minor, patch = (int(part) for part in version_str.split("."))\<close>: exactly three
  parts, each an integer.
\<close>

definition parse_version :: "nat \<Rightarrow> string \<Rightarrow> error + int \<times> int \<times> int" where
  "parse_version lim version_str =
     (case map (py_int lim) (split_on CHR ''.'' version_str) of
        [Some major, Some minor, Some patch] \<Rightarrow> Inr (major, minor, patch)
      | _ \<Rightarrow> Inl ValueError)"

definition version_query :: "string \<Rightarrow> string list" where
  "version_query python_cmd =
     [python_cmd, ''-c'',
      ''import sys; print('' @ [CHR 0x27] @ ''.'' @ [CHR 0x27]
        @ ''.join(map(str, sys.version_info[:3])))'']"

definition version_mismatch_msg :: "string \<Rightarrow> string \<Rightarrow> string" where
  "version_mismatch_msg python_cmd version_str =
     ''Python 3.10+ is required. Interpreter '' @ [CHR 0x27] @ python_cmd @ [CHR 0x27]
       @ '' reports '' @ version_str @ ''. ''
       @ ''Use --python to provide a newer runtime (e.g., pyenv, uv, or Python.org builds).''"

definition ensure_python_version :: "world \<Rightarrow> string \<Rightarrow> error + unit" where
  "ensure_python_version w python_cmd =
     (case check_output w (version_query python_cmd) of
        Inl e \<Rightarrow> Inl e
      | Inr out \<Rightarrow>
          (let version_str = strip out in
           case parse_version (int_max_str_digits w) version_str of
             Inl e \<Rightarrow> Inl e
           | Inr (major, minor, patch) \<Rightarrow>
               if (major, minor) < (3, 10)
               then Inl (RuntimeError (version_mismatch_msg python_cmd version_str))
               else Inr ()))"

subsection \<open>\<^verbatim>\<open>ensure_venv\<close>\<close>

definition venv_python_bin :: "world \<Rightarrow> path" where
  "venv_python_bin w =
     (if platform_system w = ''Windows'' then VENV_PATH w @ [''Scripts'', ''python.exe'']
      else VENV_PATH w @ [''bin'', ''python3''])"

definition venv_cmd :: "world \<Rightarrow> string \<Rightarrow> string list" where
  "venv_cmd w python_cmd = [python_cmd, ''-m'', ''venv'', str_of_path (VENV_PATH w)]"

definition pip_upgrade_cmd :: "world \<Rightarrow> string list" where
  "pip_upgrade_cmd w =
     [str_of_path (venv_python_bin w), ''-m'', ''pip'', ''install'', ''--upgrade'',
      ''pip'', ''wheel'', ''setuptools'']"

definition pip_install_cmd :: "world \<Rightarrow> string list" where
  "pip_install_cmd w =
     [str_of_path (venv_python_bin w), ''-m'', ''pip'', ''install'', ''-r'',
      str_of_path (REQUIREMENTS_PATH w)]"

definition ensure_venv :: "world \<Rightarrow> string \<Rightarrow> state \<Rightarrow> (error + path) \<times> state" where
  "ensure_venv w python_cmd s =
     (case ensure_python_version w python_cmd of
        Inl e \<Rightarrow> (Inl e, s)
      | Inr u \<Rightarrow>
          (case (if \<not> exists s (VENV_PATH w) then run w (venv_cmd w python_cmd) None [] s
                 else (Inr (), s)) of
             (Inl e, s1) \<Rightarrow> (Inl e, s1)
           | (Inr u, s1) \<Rightarrow>
               (case run w (pip_upgrade_cmd w) None [] s1 of
                  (Inl e, s2) \<Rightarrow> (Inl e, s2)
                | (Inr u, s2) \<Rightarrow>
                    (case run w (pip_install_cmd w) None [] s2 of
                       (Inl e, s3) \<Rightarrow> (Inl e, s3)
                     | (Inr u, s3) \<Rightarrow> (Inr (venv_python_bin w), s3)))))"

subsection \<open>\<^verbatim>\<open>clean_previous_outputs\<close>, \<^verbatim>\<open>compute_output_name\<close>, \<^verbatim>\<open>build_bundle\<close>\<close>

text \<open>The loop over \<^verbatim>\<open>(DIST_DIR, BUILD_DIR)\<close> stops at the first \<^verbatim>\<open>rmtree\<close> that raises.\<close>

fun remove_each :: "path list \<Rightarrow> state \<Rightarrow> (error + unit) \<times> state" where
  "remove_each [] s = (Inr (), s)"
| "remove_each (p # ps) s =
     (if exists s p
      then (case rmtree p s of
              (Inl e, s1) \<Rightarrow> (Inl e, s1)
            | (Inr u, s1) \<Rightarrow> remove_each ps s1)
      else remove_each ps s)"

definition clean_previous_outputs :: "world \<Rightarrow> state \<Rightarrow> (error + unit) \<times> state" where
  "clean_previous_outputs w s = remove_each [DIST_DIR w, BUILD_DIR w] s"

text \<open>\<^verbatim>\<open>str.lower()\<close> on ASCII letters; other characters are left as they are.\<close>

definition lower_char :: "char \<Rightarrow> char" where
  "lower_char c =
     (if 65 \<le> (of_char c :: nat) \<and> (of_char c :: nat) \<le> 90
      then char_of ((of_char c :: nat) + 32) else c)"

definition lower :: "string \<Rightarrow> string" where
  "lower s = map lower_char s"

text \<open>\<^verbatim>\<open>str.startswith\<close>.\<close>

definition startswith :: "string \<Rightarrow> string \<Rightarrow> bool" where
  "startswith s pre = prefix pre s"

definition compute_output_name :: "world \<Rightarrow> args \<Rightarrow> string" where
  "compute_output_name w a =
     (if platform a \<noteq> ''auto'' then platform a
      else (let system = lower (platform_system w) in
            if startswith system ''darwin'' then ''mac''
            else if startswith system ''windows'' then ''win''
            else ''linux''))"

definition pyinstaller_cmd :: "world \<Rightarrow> path \<Rightarrow> string \<Rightarrow> string list" where
  "pyinstaller_cmd w python_bin output_suffix =
     [str_of_path python_bin, ''-m'', ''PyInstaller'', ''--noconfirm'', ''--clean'',
      ''--distpath'', str_of_path (DIST_DIR w @ [''kshana-backend-'' @ output_suffix]),
      ''--workpath'', str_of_path (BUILD_DIR w), str_of_path (SPEC_PATH w)]"

definition build_bundle :: "world \<Rightarrow> path \<Rightarrow> string \<Rightarrow> state \<Rightarrow> (error + unit) \<times> state" where
  "build_bundle w python_bin output_suffix s =
     (case mkdir_p (DIST_DIR w) s of
        (Inl e, s1) \<Rightarrow> (Inl e, s1)
      | (Inr u, s1) \<Rightarrow>
          (case mkdir_p (BUILD_DIR w) s1 of
             (Inl e, s2) \<Rightarrow> (Inl e, s2)
           | (Inr u, s2) \<Rightarrow>
               run w (pyinstaller_cmd w python_bin output_suffix) (Some (ROOT w))
                 [(''PYTHONPATH'', str_of_path (BACKEND_SRC_DIR w))] s2))"

subsection \<open>\<^verbatim>\<open>main\<close> of \<^verbatim>\<open>build.py\<close>\<close>

definition success_msg :: string where
  "success_msg = check_box @ '' Backend bundle created successfully.''"

text \<open>The pipeline after the optional clean step.\<close>

definition pipeline :: "world \<Rightarrow> args \<Rightarrow> state \<Rightarrow> (error + unit) \<times> args \<times> state" where
  "pipeline w a s =
     (case ensure_backend_sources w a s of
        (Inl e, a1, s1) \<Rightarrow> (Inl e, a1, s1)
      | (Inr u, a1, s1) \<Rightarrow>
          (case ensure_venv w (python a1) s1 of
             (Inl e, s2) \<Rightarrow> (Inl e, a1, s2)
           | (Inr python_bin, s2) \<Rightarrow>
               (case build_bundle w python_bin (compute_output_name w a1) s2 of
                  (Inl e, s3) \<Rightarrow> (Inl e, a1, s3)
                | (Inr u, s3) \<Rightarrow> (Inr (), a1, print success_msg s3))))"

definition main :: "world \<Rightarrow> args \<Rightarrow> state \<Rightarrow> (error + unit) \<times> args \<times> state" where
  "main w a s =
     (case (if clean a then clean_previous_outputs w s else (Inr (), s)) of
        (Inl e, s0) \<Rightarrow> (Inl e, a, s0)
      | (Inr u, s0) \<Rightarrow> pipeline w a s0)"

section \<open>The runtime entry wrapper (\<^verbatim>\<open>entry.py\<close>) and the runtime hook\<close>

text \<open>
  The state of the running process that the wrapper touches: the environment variables, the
  module search path, and the attributes of the module \<^verbatim>\<open>google.adk.tools\<close>, with the list
  of the assignments made to them.
\<close>

datatype pyobj = PyObj string

record process =
  environ :: "string \<Rightarrow> string option"
  sys_path :: "string list"
  tools_namespace :: "string \<Rightarrow> pyobj option"
  assignments :: "(string \<times> pyobj) list"

text \<open>
  What the wrapper finds when it runs: its own directory, the filesystem, the outcome of
  \<^verbatim>\<open>from google.adk.tools.agent_tool import AgentTool\<close> (the same whenever it is asked in
  one process; after it has succeeded \<^verbatim>\<open>import google.adk.tools\<close> succeeds too), the
  function \<^verbatim>\<open>load_dotenv\<close> of python-dotenv when that package is installed, and the
  backend's \<^verbatim>\<open>start\<close>.
\<close>

record runtime =
  entry_root :: path
  entry_fs :: filesystem
  import_agent_tool :: "error + pyobj"
  dotenv :: "(path \<Rightarrow> (string \<Rightarrow> string option) \<Rightarrow> (string \<Rightarrow> string option)) option"
  app_start :: "error + (process \<Rightarrow> (error + unit) \<times> process)"

definition hasattr :: "(string \<Rightarrow> pyobj option) \<Rightarrow> string \<Rightarrow> bool" where
  "hasattr ns name = (ns name \<noteq> None)"

definition set_attr :: "string \<Rightarrow> pyobj \<Rightarrow> process \<Rightarrow> process" where
  "set_attr name v p =
     p\<lparr>tools_namespace := (tools_namespace p)(name \<mapsto> v),
       assignments := assignments p @ [(name, v)]\<rparr>"

text \<open>\<^verbatim>\<open>_patch_google_adk_tools\<close>: only an \<^verbatim>\<open>ImportError\<close> is caught.\<close>

definition patch_google_adk_tools :: "runtime \<Rightarrow> process \<Rightarrow> (error + unit) \<times> process" where
  "patch_google_adk_tools rt p =
     (case import_agent_tool rt of
        Inl e \<Rightarrow> (if e = ImportError then (Inr (), p) else (Inl e, p))
      | Inr AgentTool \<Rightarrow>
          if \<not> hasattr (tools_namespace p) ''AgentTool''
          then (Inr (), set_attr ''AgentTool'' AgentTool p)
          else (Inr (), p))"

text \<open>The module body of \<^verbatim>\<open>pyi_rth_google_adk_tools.py\<close>.\<close>

definition pyi_rth_google_adk_tools :: "runtime \<Rightarrow> process \<Rightarrow> (error + unit) \<times> process" where
  "pyi_rth_google_adk_tools rt p =
     (case import_agent_tool rt of
        Inl e \<Rightarrow> (if e = ImportError then (Inr (), p) else (Inl e, p))
      | Inr AgentTool \<Rightarrow>
          if \<not> hasattr (tools_namespace p) ''AgentTool''
          then (Inr (), set_attr ''AgentTool'' AgentTool p)
          else (Inr (), p))"

text \<open>\<^verbatim>\<open>_ensure_project_on_path\<close>: returns \<^verbatim>\<open>backend_src\<close>.\<close>

definition ensure_project_on_path :: "runtime \<Rightarrow> process \<Rightarrow> path \<times> process" where
  "ensure_project_on_path rt p =
     (let backend_src = entry_root rt @ [''kshana''] in
      if entry_fs rt backend_src \<noteq> None \<and> str_of_path backend_src \<notin> set (sys_path p)
      then (backend_src, p\<lparr>sys_path := str_of_path backend_src # sys_path p\<rparr>)
      else (backend_src, p))"

text \<open>\<^verbatim>\<open>_load_dotenv\<close>: a missing python-dotenv is tolerated.\<close>

definition load_dotenv :: "runtime \<Rightarrow> path \<Rightarrow> process \<Rightarrow> process" where
  "load_dotenv rt project_dir p =
     (let env_path = project_dir @ [''.env''] in
      if entry_fs rt env_path \<noteq> None
      then (case dotenv rt of
              None \<Rightarrow> p
            | Some load \<Rightarrow> p\<lparr>environ := load env_path (environ p)\<rparr>)
      else p)"

text \<open>\<^verbatim>\<open>os.environ.setdefault(key, value)\<close>.\<close>

definition setdefault :: "string \<Rightarrow> string \<Rightarrow> (string \<Rightarrow> string option) \<Rightarrow> (string \<Rightarrow> string option)" where
  "setdefault k v e = (case e k of None \<Rightarrow> e(k \<mapsto> v) | Some x \<Rightarrow> e)"

text \<open>\<^verbatim>\<open>main\<close> of \<^verbatim>\<open>entry.py\<close> up to the import of \<^verbatim>\<open>start\<close>, and as a whole.\<close>

definition entry_setup :: "runtime \<Rightarrow> process \<Rightarrow> process" where
  "entry_setup rt p =
     (let (backend_src, p1) = ensure_project_on_path rt p;
          p2 = load_dotenv rt backend_src p1;
          p3 = p2\<lparr>environ := setdefault ''KSHANA_HOST'' ''127.0.0.1'' (environ p2)\<rparr>
      in p3\<lparr>environ := setdefault ''KSHANA_PUBLIC_HOST'' ''127.0.0.1'' (environ p3)\<rparr>)"

definition entry_main :: "runtime \<Rightarrow> process \<Rightarrow> (error + unit) \<times> process" where
  "entry_main rt p =
     (let p4 = entry_setup rt p in
      case app_start rt of
        Inl e \<Rightarrow> (Inl e, p4)
      | Inr start \<Rightarrow> start p4)"

section \<open>The specification's own wording\<close>

text \<open>
  The platform suffix as the specification words it: the explicit platform unless it is
  \<^verbatim>\<open>auto\<close>; otherwise \<^verbatim>\<open>mac\<close> when the host's name starts with \<^verbatim>\<open>darwin\<close> whatever the
  case of its letters, \<^verbatim>\<open>win\<close> when it starts with \<^verbatim>\<open>windows\<close>, and \<^verbatim>\<open>linux\<close> for
  everything else. Two characters are the same letter whatever the case when they are equal
  or are the capital and the small form of one letter of the alphabet.
\<close>

definition letter_pairs :: "(char \<times> char) list" where
  "letter_pairs = zip ''ABCDEFGHIJKLMNOPQRSTUVWXYZ'' ''abcdefghijklmnopqrstuvwxyz''"

definition same_letter :: "char \<Rightarrow> char \<Rightarrow> bool" where
  "same_letter c d = (c = d \<or> (c, d) \<in> set letter_pairs \<or> (d, c) \<in> set letter_pairs)"

definition starts_with_ci :: "string \<Rightarrow> string \<Rightarrow> bool" where
  "starts_with_ci s pre =
     (length pre \<le> length s \<and> list_all2 same_letter (take (length pre) s) pre)"

definition platform_suffix_spec :: "string \<Rightarrow> string \<Rightarrow> string" where
  "platform_suffix_spec plat host =
     (if plat \<noteq> ''auto'' then plat
      else if starts_with_ci host ''darwin'' then ''mac''
      else if starts_with_ci host ''windows'' then ''win''
      else ''linux'')"

section \<open>Auxiliary notions and sample runs\<close>

text \<open>
  The environment at the moment \<^verbatim>\<open>main\<close> of \<^verbatim>\<open>entry.py\<close> reaches its two
  \<^verbatim>\<open>setdefault\<close> calls: the path has been set up and the environment file loaded.
\<close>

definition environ_before_defaults :: "runtime \<Rightarrow> process \<Rightarrow> string \<Rightarrow> string option" where
  "environ_before_defaults rt p =
     environ (load_dotenv rt (fst (ensure_project_on_path rt p)) (snd (ensure_project_on_path rt p)))"

text \<open>
  A bundled backend under \<^verbatim>\<open>/opt/kshana-backend\<close> without an environment file, started by
  an operator who has set \<^verbatim>\<open>KSHANA_HOST\<close> only; and the same installation with a
  google-adk that lacks the submodule.
\<close>

definition demo_runtime :: runtime where
  "demo_runtime =
     \<lparr>entry_root = [''opt'', ''kshana-backend''],
      entry_fs = Map.empty([''opt''] \<mapsto> Dir, [''opt'', ''kshana-backend''] \<mapsto> Dir),
      import_agent_tool = Inr (PyObj ''google.adk.tools.agent_tool.AgentTool''),
      dotenv = None,
      app_start = Inl ImportError\<rparr>"

definition broken_runtime :: runtime where
  "broken_runtime = demo_runtime\<lparr>import_agent_tool := Inl ImportError\<rparr>"

definition demo_process :: process where
  "demo_process =
     \<lparr>environ = Map.empty(''KSHANA_HOST'' \<mapsto> ''0.0.0.0''),
      sys_path = [],
      tools_namespace = Map.empty,
      assignments = []\<rparr>"

text \<open>The commands of the subprocesses recorded in a trace, in order.\<close>

fun executed :: "event list \<Rightarrow> string list list" where
  "executed [] = []"
| "executed (Print msg # es) = executed es"
| "executed (Exec cmd cwd env # es) = cmd # executed es"

text \<open>
  A developer's machine: the repository is checked out at
  \<^verbatim>\<open>/home/dev/kshana-desktop\<close>, so \<^verbatim>\<open>build.py\<close> lies in its \<^verbatim>\<open>backend-build\<close>. The
  only interpreter around reports version 3.9.18; \<^verbatim>\<open>git clone\<close> creates the directory it
  is given, every other subprocess succeeds and changes nothing.
\<close>

definition demo_root :: path where
  "demo_root = [''home'', ''dev'', ''kshana-desktop'', ''backend-build'']"

definition demo_world :: world where
  "demo_world =
     \<lparr>ROOT = demo_root,
      platform_system = ''Linux'',
      subprocess_run = (\<lambda>cmd cwd f.
         if take 2 cmd = [''git'', ''clone''] then (None, f(demo_root @ [''kshana''] \<mapsto> Dir))
         else (None, f)),
      check_output = (\<lambda>cmd. Inr (''3.9.18'' @ [CHR 0x0A])),
      int_max_str_digits = 4300,
      failed_copy = (\<lambda>src dst f. f)\<rparr>"

text \<open>The same machine after an interpreter of version 3.11.4 has been installed.\<close>

definition build_world :: world where
  "build_world = demo_world\<lparr>check_output := (\<lambda>cmd. Inr (''3.11.4'' @ [CHR 0x0A]))\<rparr>"

definition demo_args :: args where
  "demo_args =
     \<lparr>source_path = None, ref = ''v1.2'', platform = ''auto'', clean = False,
      python = ''/usr/bin/python3''\<rparr>"

text \<open>Nothing staged and no sibling checkout.\<close>

definition fresh_state :: state where
  "fresh_state =
     \<lparr>fs = Map.empty(
        [] \<mapsto> Dir,
        [''home''] \<mapsto> Dir,
        [''home'', ''dev''] \<mapsto> Dir,
        [''home'', ''dev'', ''kshana-desktop''] \<mapsto> Dir,
        demo_root \<mapsto> Dir),
      trace = []\<rparr>"

text \<open>A staged tree from an earlier run, holding one file.\<close>

definition staged_state :: state where
  "staged_state =
     fresh_state\<lparr>fs := (fs fresh_state)(
        demo_root @ [''kshana''] \<mapsto> Dir,
        demo_root @ [''kshana'', ''old.txt''] \<mapsto> File ''stale'')\<rparr>"

text \<open>
  The backend checked out next to the repository, at \<^verbatim>\<open>/home/dev/kshana\<close>, with a source
  file, a compiled file and version-control metadata; without and with a staged tree.
\<close>

definition add_sibling :: "state \<Rightarrow> state" where
  "add_sibling s =
     s\<lparr>fs := (fs s)(
        [''home'', ''dev'', ''kshana''] \<mapsto> Dir,
        [''home'', ''dev'', ''kshana'', ''main.py''] \<mapsto> File ''print(1)'',
        [''home'', ''dev'', ''kshana'', ''main.pyc''] \<mapsto> File ''bytecode'',
        [''home'', ''dev'', ''kshana'', ''.git''] \<mapsto> Dir,
        [''home'', ''dev'', ''kshana'', ''.git'', ''HEAD''] \<mapsto> File ''ref'')\<rparr>"

definition sibling_state :: state where
  "sibling_state = add_sibling fresh_state"

definition sibling_staged_state :: state where
  "sibling_staged_state = add_sibling staged_state"

text \<open>
  The branch of \<^verbatim>\<open>ensure_backend_sources\<close> that is taken once \<^verbatim>\<open>args.source_path\<close> is set,
  as a function of that path and of the namespace.
\<close>

definition copy_from :: "world \<Rightarrow> path \<Rightarrow> args \<Rightarrow> state \<Rightarrow> (error + unit) \<times> args \<times> state" where
  "copy_from w sp a1 s =
     (let source = resolve sp in
           if \<not> exists s source then (Inl (FileNotFoundError (missing_source_msg source)), a1, s)
           else
             (case (if exists s (BACKEND_SRC_DIR w) then rmtree (BACKEND_SRC_DIR w) s else (Inr (), s)) of
                (Inl e, s1) \<Rightarrow> (Inl e, a1, s1)
              | (Inr u, s1) \<Rightarrow>
                  (case copytree w source (BACKEND_SRC_DIR w) s1 of
                     (Inl e, s2) \<Rightarrow> (Inl e, a1, s2)
                   | (Inr u, s2) \<Rightarrow> (Inr (), a1, print (copied_msg source) s2))))"

text \<open>The state without the tree at \<open>p\<close>, when there is one.\<close>

definition without :: "path \<Rightarrow> state \<Rightarrow> state" where
  "without p s =
     (if fs s p = None then s else s\<lparr>fs := (\<lambda>q. if prefix p q then None else fs s q)\<rparr>)"

text \<open>
  The outputs of an earlier build on the developer's machine; a stray regular file where the
  output directory should be; and invocations with \<^verbatim>\<open>--clean\<close>, one of them with a
  \<^verbatim>\<open>--source-path\<close> that does not exist.
\<close>

definition built_state :: state where
  "built_state =
     fresh_state\<lparr>fs := (fs fresh_state)(
        demo_root @ [''dist''] \<mapsto> Dir,
        demo_root @ [''dist'', ''kshana-backend-linux''] \<mapsto> Dir,
        demo_root @ [''build-artifacts''] \<mapsto> Dir,
        demo_root @ [''build-artifacts'', ''kshana.toc''] \<mapsto> File ''toc'')\<rparr>"

definition dist_file_state :: state where
  "dist_file_state = fresh_state\<lparr>fs := (fs fresh_state)(demo_root @ [''dist''] \<mapsto> File [])\<rparr>"

definition clean_args :: args where
  "clean_args = demo_args\<lparr>clean := True\<rparr>"

definition missing_args :: args where
  "missing_args = demo_args\<lparr>source_path := Some [''home'', ''dev'', ''nowhere'']\<rparr>"

definition missing_clean_args :: args where
  "missing_clean_args = missing_args\<lparr>clean := True\<rparr>"

text \<open>
  What the queried interpreter prints for the version query, before the newline that
  \<^verbatim>\<open>print\<close> adds: \<^verbatim>\<open>'.'.join(map(str, sys.version_info[:3]))\<close>, three numbers in
  decimal notation.
\<close>

definition digit_char :: "nat \<Rightarrow> char" where
  "digit_char d = char_of (48 + d)"

function str_nat :: "nat \<Rightarrow> string" where
  "str_nat n = (if n < 10 then [digit_char n] else str_nat (n div 10) @ [digit_char (n mod 10)])"
  by pat_completeness auto
termination
  by (relation "measure (\<lambda>n. n)") auto

definition version_text :: "nat \<Rightarrow> nat \<Rightarrow> nat \<Rightarrow> string" where
  "version_text major minor patch = join ''.'' (map str_nat [major, minor, patch])"

text \<open>A decimal digit, as a predicate on characters for the proofs about \<^verbatim>\<open>int\<close>.\<close>

definition plain :: "char \<Rightarrow> bool" where
  "plain c = (is_digit c \<and> \<not> is_space c \<and> \<not> int_space c
              \<and> c \<noteq> CHR ''.'' \<and> c \<noteq> CHR ''-'' \<and> c \<noteq> CHR ''+'')"

text \<open>
  Kinds of commands: the clone and the checkout that source acquisition launches, and the
  runs of a module of an interpreter (\<^verbatim>\<open>python -m ...\<close>) that provisioning and build launch.
\<close>

definition is_git_clone :: "string list \<Rightarrow> bool" where
  "is_git_clone cmd = (take 2 cmd = [''git'', ''clone''])"

definition is_git_checkout :: "string list \<Rightarrow> bool" where
  "is_git_checkout cmd = (take 2 cmd = [''git'', ''checkout''])"

definition module_run :: "string list \<Rightarrow> bool" where
  "module_run cmd = (take 1 (drop 1 cmd) = [''-m''])"

text \<open>From \<open>s\<close> to \<open>s'\<close> only commands of kind \<open>P\<close> have been launched.\<close>

definition launches_only :: "(string list \<Rightarrow> bool) \<Rightarrow> state \<Rightarrow> state \<Rightarrow> bool" where
  "launches_only P s s' =
     (\<exists>rest. executed (trace s') = executed (trace s) @ rest \<and> list_all P rest)"

text \<open>
  A small tree \<^verbatim>\<open>/src\<close> with a file, a directory \<^verbatim>\<open>a\<close> and a file in it, to copy into
  itself.
\<close>

definition nest_state :: state where
  "nest_state =
     \<lparr>fs = Map.empty(
        [] \<mapsto> Dir,
        [''src''] \<mapsto> Dir,
        [''src'', ''f.txt''] \<mapsto> File ''x'',
        [''src'', ''a''] \<mapsto> Dir,
        [''src'', ''a'', ''g.txt''] \<mapsto> File ''y''),
      trace = []\<rparr>"

section \<open>Properties\<close>

subsection \<open>The platform suffix\<close>

lemma prefix_take_iff: "prefix pre s \<longleftrightarrow> length pre \<le> length s \<and> take (length pre) s = pre"
  by (metis prefix_length_le take_is_prefix append_eq_conv_conj prefix_def)

lemma lower_char_iff:
  assumes "97 \<le> (of_char d :: nat)" and "(of_char d :: nat) \<le> 122"
  shows "lower_char c = d \<longleftrightarrow> c = d \<or> (of_char c :: nat) + 32 = of_char d"
proof (cases "65 \<le> (of_char c :: nat) \<and> (of_char c :: nat) \<le> 90")
  case True
  then have ne: "c \<noteq> d" using assms by auto
  have "char_of ((of_char c :: nat) + 32) = d \<longleftrightarrow> (of_char c :: nat) + 32 = of_char d"
  proof
    assume "char_of ((of_char c :: nat) + 32) = d"
    then have "(of_char (char_of ((of_char c :: nat) + 32)) :: nat) = of_char d" by simp
    then show "(of_char c :: nat) + 32 = of_char d" using True by (simp add: take_bit_eq_mod)
  next
    assume "(of_char c :: nat) + 32 = of_char d"
    then show "char_of ((of_char c :: nat) + 32) = d" by simp
  qed
  then show ?thesis using True ne by (simp add: lower_char_def)
next
  case False
  then have "(of_char c :: nat) + 32 \<noteq> of_char d" using assms by auto
  then show ?thesis using False by (auto simp add: lower_char_def)
qed

lemma ci_letter:
  assumes "(of_char u :: nat) + 32 = of_char d" and "97 \<le> (of_char d :: nat)"
    and "(of_char d :: nat) \<le> 122"
  shows "lower_char c = d \<longleftrightarrow> c = d \<or> c = u"
proof -
  have "(of_char c :: nat) + 32 = of_char d \<longleftrightarrow> c = u"
    unfolding assms(1) [symmetric] by simp
  then show ?thesis using lower_char_iff [OF assms(2,3), of c] by simp
qed

lemma same_letter_lower:
  assumes "d \<in> set ''darwinos''"
  shows "same_letter c d \<longleftrightarrow> lower_char c = d"
proof -
  from assms consider "d = CHR ''d''" | "d = CHR ''a''" | "d = CHR ''r''" | "d = CHR ''w''"
    | "d = CHR ''i''" | "d = CHR ''n''" | "d = CHR ''o''" | "d = CHR ''s''"
    by auto
  then show ?thesis
  proof cases
    case 1 then show ?thesis
      using ci_letter [of "CHR ''D''" d c] by (auto simp add: same_letter_def letter_pairs_def)
  next
    case 2 then show ?thesis
      using ci_letter [of "CHR ''A''" d c] by (auto simp add: same_letter_def letter_pairs_def)
  next
    case 3 then show ?thesis
      using ci_letter [of "CHR ''R''" d c] by (auto simp add: same_letter_def letter_pairs_def)
  next
    case 4 then show ?thesis
      using ci_letter [of "CHR ''W''" d c] by (auto simp add: same_letter_def letter_pairs_def)
  next
    case 5 then show ?thesis
      using ci_letter [of "CHR ''I''" d c] by (auto simp add: same_letter_def letter_pairs_def)
  next
    case 6 then show ?thesis
      using ci_letter [of "CHR ''N''" d c] by (auto simp add: same_letter_def letter_pairs_def)
  next
    case 7 then show ?thesis
      using ci_letter [of "CHR ''O''" d c] by (auto simp add: same_letter_def letter_pairs_def)
  next
    case 8 then show ?thesis
      using ci_letter [of "CHR ''S''" d c] by (auto simp add: same_letter_def letter_pairs_def)
  qed
qed

lemma startswith_lower_ci:
  assumes "set pre \<subseteq> set ''darwinos''"
  shows "startswith (lower s) pre = starts_with_ci s pre"
proof -
  have "take (length pre) (map lower_char s) = pre
          \<longleftrightarrow> list_all2 (\<lambda>c d. lower_char c = d) (take (length pre) s) pre"
    by (simp add: take_map list_all2_conv_all_nth list_eq_iff_nth_eq) 
  also have "\<dots> \<longleftrightarrow> list_all2 same_letter (take (length pre) s) pre"
    using assms same_letter_lower
    by (intro list.rel_cong) auto
  finally show ?thesis
    by (simp add: startswith_def lower_def starts_with_ci_def prefix_take_iff)
qed

text \<open>
  C7. \<^verbatim>\<open>compute_output_name\<close> computes the platform suffix of the specification: the
  explicit platform argument unchanged when it is not \<^verbatim>\<open>auto\<close>, and for \<^verbatim>\<open>auto\<close> the
  suffix \<^verbatim>\<open>mac\<close>, \<^verbatim>\<open>win\<close> or \<^verbatim>\<open>linux\<close> according to whether the host's name starts,
  case-insensitively, with \<^verbatim>\<open>darwin\<close>, with \<^verbatim>\<open>windows\<close>, or with neither. So a host that
  reports \<^verbatim>\<open>Darwin\<close> gives \<^verbatim>\<open>mac\<close>, one that reports \<^verbatim>\<open>Windows\<close> gives \<^verbatim>\<open>win\<close>, and
  \<^verbatim>\<open>Linux\<close> or \<^verbatim>\<open>CYGWIN_NT-10.0\<close> give \<^verbatim>\<open>linux\<close>, while an explicit \<^verbatim>\<open>win\<close> on a
  host that reports \<^verbatim>\<open>Darwin\<close> stays \<^verbatim>\<open>win\<close>.
\<close>

theorem compute_output_name_spec:
  "compute_output_name w a = platform_suffix_spec (platform a) (platform_system w)
   \<and> compute_output_name (demo_world\<lparr>platform_system := ''Darwin''\<rparr>) demo_args = ''mac''
   \<and> compute_output_name (demo_world\<lparr>platform_system := ''DARWIN''\<rparr>) demo_args = ''mac''
   \<and> compute_output_name (demo_world\<lparr>platform_system := ''Windows''\<rparr>) demo_args = ''win''
   \<and> compute_output_name (demo_world\<lparr>platform_system := ''Linux''\<rparr>) demo_args = ''linux''
   \<and> compute_output_name (demo_world\<lparr>platform_system := ''CYGWIN_NT-10.0''\<rparr>) demo_args = ''linux''
   \<and> compute_output_name (demo_world\<lparr>platform_system := ''Darwin''\<rparr>)
         (demo_args\<lparr>platform := ''win''\<rparr>) = ''win''
   \<and> platform_suffix_spec ''auto'' ''Darwin'' = ''mac''
   \<and> platform_suffix_spec ''auto'' ''Windows'' = ''win''
   \<and> platform_suffix_spec ''auto'' ''Linux'' = ''linux''"
proof -
  have d: "set ''darwin'' \<subseteq> set ''darwinos''" and w: "set ''windows'' \<subseteq> set ''darwinos''"
    by simp_all
  have eq: "compute_output_name w a = platform_suffix_spec (platform a) (platform_system w)"
    for w a
    by (simp only: compute_output_name_def platform_suffix_spec_def Let_def
        startswith_lower_ci [OF d] startswith_lower_ci [OF w])
  have spec: "platform_suffix_spec ''auto'' ''Darwin'' = ''mac''"
    "platform_suffix_spec ''auto'' ''DARWIN'' = ''mac''"
    "platform_suffix_spec ''auto'' ''Windows'' = ''win''"
    "platform_suffix_spec ''auto'' ''Linux'' = ''linux''"
    "platform_suffix_spec ''auto'' ''CYGWIN_NT-10.0'' = ''linux''"
    "platform_suffix_spec ''win'' ''Darwin'' = ''win''"
    by (simp_all add: platform_suffix_spec_def starts_with_ci_def same_letter_def letter_pairs_def)
  have auto: "platform demo_args = ''auto''" by (simp add: demo_args_def)
  show ?thesis
    by (simp add: eq spec auto)
qed

subsection \<open>The runtime entry wrapper\<close>

lemma setdefault_apply:
  "setdefault k v e k' = (if k' = k \<and> e k = None then Some v else e k')"
  by (simp add: setdefault_def split: option.splits)

lemma environ_before_defaults_no_dotenv:
  "entry_fs rt (entry_root rt @ [''kshana'', ''.env'']) = None \<Longrightarrow> environ_before_defaults rt p = environ p"
  by (simp add: environ_before_defaults_def load_dotenv_def ensure_project_on_path_def Let_def)

text \<open>
  C10. When the wrapper has passed its two \<^verbatim>\<open>setdefault\<close> calls, every environment
  variable has the value it had just before them, except that \<^verbatim>\<open>KSHANA_HOST\<close> and
  \<^verbatim>\<open>KSHANA_PUBLIC_HOST\<close> are \<^verbatim>\<open>127.0.0.1\<close> where they were unset: a variable that is
  already set keeps its value, and no other variable is touched.
\<close>

theorem entry_defaults:
  "environ (entry_setup rt p) k =
     (if (k = ''KSHANA_HOST'' \<or> k = ''KSHANA_PUBLIC_HOST'') \<and> environ_before_defaults rt p k = None
      then Some ''127.0.0.1'' else environ_before_defaults rt p k)"
  by (auto simp add: entry_setup_def environ_before_defaults_def Let_def split_beta setdefault_apply)

theorem entry_defaults_witness:
  "environ (entry_setup demo_runtime demo_process) ''KSHANA_HOST'' = Some ''0.0.0.0''
   \<and> environ (entry_setup demo_runtime demo_process) ''KSHANA_PUBLIC_HOST'' = Some ''127.0.0.1''
   \<and> environ (entry_setup demo_runtime demo_process) ''PATH'' = None"
  using entry_defaults [of demo_runtime demo_process "''KSHANA_HOST''"]
    entry_defaults [of demo_runtime demo_process "''KSHANA_PUBLIC_HOST''"]
    entry_defaults [of demo_runtime demo_process "''PATH''"]
  by (simp add: environ_before_defaults_no_dotenv demo_runtime_def demo_process_def)

text \<open>
  C8. When the import succeeds, the patch returns normally, leaves \<^verbatim>\<open>AgentTool\<close> bound in
  the namespace of \<^verbatim>\<open>google.adk.tools\<close>, and a second run changes nothing and returns
  normally: over both runs the symbol is assigned once when it was missing and not at all
  when it was there. The same holds when the first run is the runtime hook. When the import
  raises \<^verbatim>\<open>ImportError\<close>, patch and hook return normally and leave the process as it was.
\<close>

theorem patch_idempotent:
  "(import_agent_tool rt = Inr cls \<longrightarrow>
      fst (patch_google_adk_tools rt p) = Inr ()
      \<and> tools_namespace (snd (patch_google_adk_tools rt p)) ''AgentTool'' \<noteq> None
      \<and> patch_google_adk_tools rt (snd (patch_google_adk_tools rt p))
          = (Inr (), snd (patch_google_adk_tools rt p))
      \<and> assignments (snd (patch_google_adk_tools rt (snd (patch_google_adk_tools rt p))))
          = assignments p @ (if tools_namespace p ''AgentTool'' = None then [(''AgentTool'', cls)] else [])
      \<and> patch_google_adk_tools rt (snd (pyi_rth_google_adk_tools rt p))
          = (Inr (), snd (pyi_rth_google_adk_tools rt p))
      \<and> assignments (snd (pyi_rth_google_adk_tools rt p))
          = assignments p @ (if tools_namespace p ''AgentTool'' = None then [(''AgentTool'', cls)] else []))
   \<and> (import_agent_tool rt = Inl ImportError \<longrightarrow>
      patch_google_adk_tools rt p = (Inr (), p) \<and> pyi_rth_google_adk_tools rt p = (Inr (), p))"
  by (simp add: patch_google_adk_tools_def pyi_rth_google_adk_tools_def hasattr_def set_attr_def)

theorem patch_idempotent_witness:
  "import_agent_tool demo_runtime = Inr (PyObj ''google.adk.tools.agent_tool.AgentTool'')
   \<and> import_agent_tool broken_runtime = Inl ImportError
   \<and> assignments (snd (patch_google_adk_tools demo_runtime
         (snd (patch_google_adk_tools demo_runtime demo_process))))
       = [(''AgentTool'', PyObj ''google.adk.tools.agent_tool.AgentTool'')]
   \<and> patch_google_adk_tools broken_runtime demo_process = (Inr (), demo_process)"
proof -
  have ok: "import_agent_tool demo_runtime = Inr (PyObj ''google.adk.tools.agent_tool.AgentTool'')"
    by (simp add: demo_runtime_def)
  have bad: "import_agent_tool broken_runtime = Inl ImportError"
    by (simp add: broken_runtime_def)
  have absent: "tools_namespace demo_process ''AgentTool'' = None"
    and none: "assignments demo_process = []"
    by (simp_all add: demo_process_def)
  from patch_idempotent [of demo_runtime _ demo_process] ok
  have "assignments (snd (patch_google_adk_tools demo_runtime
          (snd (patch_google_adk_tools demo_runtime demo_process))))
        = assignments demo_process @ (if tools_namespace demo_process ''AgentTool'' = None
            then [(''AgentTool'', PyObj ''google.adk.tools.agent_tool.AgentTool'')] else [])"
    by blast
  moreover from patch_idempotent [of broken_runtime _ demo_process] bad
  have "patch_google_adk_tools broken_runtime demo_process = (Inr (), demo_process)"
    by blast
  ultimately show ?thesis
    using ok bad absent none by simp
qed

subsection \<open>The interpreter's version\<close>

declare str_nat.simps [simp del]

lemma of_char_digit_char: "d < 10 \<Longrightarrow> (of_char (digit_char d) :: nat) = 48 + d"
  by (simp add: digit_char_def)

lemma digit_char_props:
  assumes "d < 10"
  shows "is_digit (digit_char d)" and "digit_val (digit_char d) = int d"
    and "\<not> is_space (digit_char d)" and "digit_char d \<noteq> CHR ''.''"
    and "digit_char d \<noteq> CHR ''-''" and "digit_char d \<noteq> CHR ''+''"
    and "\<not> int_space (digit_char d)"
proof -
  note e = of_char_digit_char [OF assms]
  show "is_digit (digit_char d)" using assms by (simp add: is_digit_def e)
  show "digit_val (digit_char d) = int d" by (simp add: digit_val_def e)
  show "\<not> is_space (digit_char d)" using assms by (simp add: is_space_def e)
  show "\<not> int_space (digit_char d)" using assms by (simp add: int_space_def e)
  have "(of_char (digit_char d) :: nat) \<noteq> of_char CHR ''.''" using assms by (simp add: e)
  then show "digit_char d \<noteq> CHR ''.''" by auto
  have "(of_char (digit_char d) :: nat) \<noteq> of_char CHR ''-''" using assms by (simp add: e)
  then show "digit_char d \<noteq> CHR ''-''" by auto
  have "(of_char (digit_char d) :: nat) \<noteq> of_char CHR ''+''" using assms by (simp add: e)
  then show "digit_char d \<noteq> CHR ''+''" by auto
qed

lemma plain_digit_char: "d < 10 \<Longrightarrow> plain (digit_char d)"
  by (simp add: plain_def digit_char_props)

lemma str_nat_plain: "\<forall>c \<in> set (str_nat n). plain c"
proof (induction n rule: str_nat.induct)
  case (1 n)
  show ?case
  proof (cases "n < 10")
    case True
    then show ?thesis by (subst str_nat.simps) (simp add: plain_digit_char)
  next
    case False
    with 1 show ?thesis by (subst str_nat.simps) (simp add: plain_digit_char)
  qed
qed

lemma str_nat_nonempty: "str_nat n \<noteq> []"
  by (subst str_nat.simps) simp

lemma str_nat_value: "foldl (\<lambda>a c. 10 * a + digit_val c) 0 (str_nat n) = int n"
proof (induction n rule: str_nat.induct)
  case (1 n)
  show ?case
  proof (cases "n < 10")
    case True
    then show ?thesis by (subst str_nat.simps) (simp add: digit_char_props)
  next
    case False
    with 1 have "foldl (\<lambda>a c. 10 * a + digit_val c) 0 (str_nat (n div 10)) = int (n div 10)" by simp
    with False show ?thesis
      by (subst str_nat.simps) (simp add: digit_char_props zdiv_int zmod_int)
  qed
qed

lemma parse_digits_all:
  "\<forall>c \<in> set cs. is_digit c \<Longrightarrow>
   parse_digits acc cs = Some (foldl (\<lambda>a c. 10 * a + digit_val c) acc cs)"
proof (induction cs arbitrary: acc)
  case Nil
  show ?case by simp
next
  case (Cons c cs)
  then show ?case by (cases cs) simp_all
qed

lemma strip_plain:
  assumes "s \<noteq> []" and "\<forall>c \<in> set s. \<not> is_space c"
  shows "strip s = s"
proof -
  have "dropWhile is_space s = s" using assms by (cases s) simp_all
  moreover have "dropWhile is_space (rev s) = rev s" using assms by (cases "rev s") auto
  ultimately show ?thesis by (simp add: strip_def)
qed

lemma int_strip_plain:
  assumes "s \<noteq> []" and "\<forall>c \<in> set s. \<not> int_space c"
  shows "int_strip s = s"
proof -
  have "dropWhile int_space s = s" using assms by (cases s) simp_all
  moreover have "dropWhile int_space (rev s) = rev s" using assms by (cases "rev s") auto
  ultimately show ?thesis by (simp add: int_strip_def)
qed

lemma one_digit_fits: "n < 10 \<Longrightarrow> \<not> too_many_digits lim (str_nat n)"
  by (subst str_nat.simps) (simp add: too_many_digits_def)

lemma py_int_str_nat:
  assumes "\<not> too_many_digits lim (str_nat n)"
  shows "py_int lim (str_nat n) = Some (int n)"
proof -
  obtain d ds where s: "str_nat n = d # ds" using str_nat_nonempty [of n] by (cases "str_nat n") auto
  have pl: "\<forall>c \<in> set (d # ds). plain c" using str_nat_plain [of n] s by simp
  then have st: "int_strip (d # ds) = d # ds" by (intro int_strip_plain) (auto simp add: plain_def)
  have dg: "\<forall>c \<in> set ds. is_digit c" and d: "is_digit d" "d \<noteq> CHR ''-''" "d \<noteq> CHR ''+''"
    using pl by (auto simp add: plain_def)
  have "parse_digits (digit_val d) ds = Some (foldl (\<lambda>a c. 10 * a + digit_val c) 0 (d # ds))"
    using parse_digits_all [OF dg] by simp
  then have "parse_digits (digit_val d) ds = Some (int n)"
    using str_nat_value [of n] s by simp
  then show ?thesis using st d assms by (simp add: py_int_def s)
qed

lemma split_on_none: "d \<notin> set xs \<Longrightarrow> split_on d xs = [xs]"
  by (induction xs) auto

lemma split_on_first: "d \<notin> set xs \<Longrightarrow> split_on d (xs @ d # rest) = xs # split_on d rest"
  by (induction xs) auto

lemma no_dot: "CHR ''.'' \<notin> set (str_nat n)"
  using str_nat_plain [of n] by (auto simp add: plain_def)

lemma no_space: "\<forall>c \<in> set (str_nat n). \<not> is_space c"
  using str_nat_plain [of n] by (auto simp add: plain_def)

lemma strip_version_text:
  "strip (version_text major minor patch @ [CHR 0x0A]) = version_text major minor patch"
proof -
  let ?v = "version_text major minor patch"
  have v: "?v = str_nat major @ ''.'' @ str_nat minor @ ''.'' @ str_nat patch"
    by (simp add: version_text_def)
  obtain d ds where s: "str_nat major = d # ds" using str_nat_nonempty [of major] by (cases "str_nat major") auto
  have "\<not> is_space d" using no_space [of major] s by simp
  then have 1: "dropWhile is_space (?v @ [CHR 0x0A]) = ?v @ [CHR 0x0A]" by (simp add: v s)
  obtain e es where r: "rev (str_nat patch) = e # es"
    using str_nat_nonempty [of patch] by (cases "rev (str_nat patch)") auto
  have "e \<in> set (str_nat patch)" using r by (metis list.set_intros(1) set_rev)
  then have "\<not> is_space e" using no_space [of patch] by simp
  moreover have "is_space (CHR 0x0A)" by (simp add: is_space_def)
  ultimately have 2: "dropWhile is_space (rev (?v @ [CHR 0x0A])) = rev ?v" by (simp add: v r)
  show ?thesis by (simp only: strip_def 1 2 rev_rev_ident)
qed

lemma printed_version_parses:
  assumes "\<not> too_many_digits lim (str_nat major)"
    and "\<not> too_many_digits lim (str_nat minor)"
    and "\<not> too_many_digits lim (str_nat patch)"
  shows "parse_version lim (version_text major minor patch) = Inr (int major, int minor, int patch)"
  by (simp add: parse_version_def version_text_def split_on_first [OF no_dot] split_on_none [OF no_dot]
      py_int_str_nat [OF assms(1)] py_int_str_nat [OF assms(2)] py_int_str_nat [OF assms(3)])

lemma demo_text: "version_text 3 9 18 = ''3.9.18''"
  by (simp add: version_text_def str_nat.simps digit_char_def) code_simp

lemma version_below_rejected:
  assumes "check_output w (version_query python_cmd) = Inr out"
    and "parse_version (int_max_str_digits w) (strip out) = Inr (major, minor, patch)"
    and "(major, minor) < (3, 10)"
  shows "ensure_venv w python_cmd s
           = (Inl (RuntimeError (version_mismatch_msg python_cmd (strip out))), s)"
proof -
  have "ensure_python_version w python_cmd
          = Inl (RuntimeError (version_mismatch_msg python_cmd (strip out)))"
    using assms by (simp add: ensure_python_version_def)
  then show ?thesis by (simp add: ensure_venv_def)
qed

text \<open>
  C5. When the interpreter answers the version query with a version whose major and minor
  numbers are below (3, 10), whatever its patch level, be it any answer that the script
  reads as such a version or the three decimal numbers an interpreter prints (each within
  the limit on the digits that \<^verbatim>\<open>int\<close> converts), \<^verbatim>\<open>ensure_venv\<close> raises the
  \<^verbatim>\<open>RuntimeError\<close> whose message contains the interpreter's path and the version it
  reported, and it returns the state it was given: nothing has been run and the filesystem is
  as before, so no environment has been created.
\<close>

theorem old_python_rejected:
  assumes "check_output w (version_query python_cmd) = Inr out"
    and "parse_version (int_max_str_digits w) (strip out) = Inr (major, minor, patch)
           \<and> (major, minor) < (3, 10)
         \<or> (\<exists>a b c. out = version_text a b c @ [CHR 0x0A] \<and> (int a, int b) < (3, 10)
               \<and> \<not> too_many_digits (int_max_str_digits w) (str_nat b)
               \<and> \<not> too_many_digits (int_max_str_digits w) (str_nat c))"
  shows "ensure_venv w python_cmd s
           = (Inl (RuntimeError (version_mismatch_msg python_cmd (strip out))), s)
         \<and> sublist python_cmd (version_mismatch_msg python_cmd (strip out))
         \<and> sublist (strip out) (version_mismatch_msg python_cmd (strip out))"
proof -
  from assms(2) obtain ma mi pa where
    p: "parse_version (int_max_str_digits w) (strip out) = Inr (ma, mi, pa)"
    and b: "(ma, mi) < (3, 10)"
  proof
    assume "parse_version (int_max_str_digits w) (strip out) = Inr (major, minor, patch)
              \<and> (major, minor) < (3, 10)"
    then show ?thesis using that by blast
  next
    assume "\<exists>a b c. out = version_text a b c @ [CHR 0x0A] \<and> (int a, int b) < (3, 10)
               \<and> \<not> too_many_digits (int_max_str_digits w) (str_nat b)
               \<and> \<not> too_many_digits (int_max_str_digits w) (str_nat c)"
    then obtain a b c where o: "out = version_text a b c @ [CHR 0x0A]"
      and l: "(int a, int b) < (3, 10)"
      and fb: "\<not> too_many_digits (int_max_str_digits w) (str_nat b)"
      and fc: "\<not> too_many_digits (int_max_str_digits w) (str_nat c)"
      by blast
    from l have "a < 10" by auto
    then have fa: "\<not> too_many_digits (int_max_str_digits w) (str_nat a)"
      by (rule one_digit_fits)
    show ?thesis
      using that [of "int a" "int b" "int c"] l
      by (simp only: o strip_version_text printed_version_parses [OF fa fb fc])
  qed
  have "ensure_venv w python_cmd s
           = (Inl (RuntimeError (version_mismatch_msg python_cmd (strip out))), s)"
    by (rule version_below_rejected [OF assms(1) p b])
  moreover have "sublist python_cmd (version_mismatch_msg python_cmd (strip out))"
    unfolding version_mismatch_msg_def sublist_def by (metis append.assoc)
  moreover have "sublist (strip out) (version_mismatch_msg python_cmd (strip out))"
    unfolding version_mismatch_msg_def sublist_def by (metis append.assoc)
  ultimately show ?thesis by simp
qed

lemma demo_digits:
  "\<not> too_many_digits lim (str_nat 9)" "\<not> too_many_digits lim (str_nat 18)"
  by (simp_all add: str_nat.simps too_many_digits_def)

theorem old_python_rejected_witness:
  "ensure_venv demo_world ''/usr/bin/python3'' fresh_state
     = (Inl (RuntimeError (version_mismatch_msg ''/usr/bin/python3'' ''3.9.18'')), fresh_state)"
proof -
  have a: "check_output demo_world (version_query ''/usr/bin/python3'') = Inr (''3.9.18'' @ [CHR 0x0A])"
    by (simp add: demo_world_def)
  have b: "strip (''3.9.18'' @ [CHR 0x0A]) = ''3.9.18''"
    by (simp add: strip_def is_space_def)
  have "''3.9.18'' @ [CHR 0x0A] = version_text 3 9 18 @ [CHR 0x0A] \<and> (int 3, int 9) < (3, 10)
          \<and> \<not> too_many_digits (int_max_str_digits demo_world) (str_nat 9)
          \<and> \<not> too_many_digits (int_max_str_digits demo_world) (str_nat 18)"
    by (simp add: demo_text demo_digits)
  then have c: "parse_version (int_max_str_digits demo_world) (strip (''3.9.18'' @ [CHR 0x0A])) = Inr (0, 0, 0)
           \<and> ((0::int), (0::int)) < (3, 10)
         \<or> (\<exists>a b c. ''3.9.18'' @ [CHR 0x0A] = version_text a b c @ [CHR 0x0A] \<and> (int a, int b) < (3, 10)
               \<and> \<not> too_many_digits (int_max_str_digits demo_world) (str_nat b)
               \<and> \<not> too_many_digits (int_max_str_digits demo_world) (str_nat c))"
    by blast
  have "parse_version (int_max_str_digits demo_world) (strip (''3.9.18'' @ [CHR 0x0A])) = Inr (3, 9, 18)
          \<and> ((3::int), (9::int)) < (3, 10)"
    by (simp add: strip_def is_space_def demo_world_def parse_version_def py_int_def int_strip_def
        int_space_def too_many_digits_def is_digit_def digit_val_def)
  then have d: "parse_version (int_max_str_digits demo_world) (strip (''3.9.18'' @ [CHR 0x0A])) = Inr (3, 9, 18)
           \<and> ((3::int), (9::int)) < (3, 10)
         \<or> (\<exists>a b c. ''3.9.18'' @ [CHR 0x0A] = version_text a b c @ [CHR 0x0A] \<and> (int a, int b) < (3, 10)
               \<and> \<not> too_many_digits (int_max_str_digits demo_world) (str_nat b)
               \<and> \<not> too_many_digits (int_max_str_digits demo_world) (str_nat c))"
    by blast
  from old_python_rejected [OF a c, of fresh_state] old_python_rejected [OF a d, of fresh_state] b
  show ?thesis by simp
qed

subsection \<open>Source acquisition\<close>

lemma executed_append: "executed (xs @ ys) = executed xs @ executed ys"
  by (induction xs rule: executed.induct) simp_all

lemma run_executed:
  "executed (trace (snd (run w cmd cwd env s))) = executed (trace s) @ [cmd]"
  by (simp add: run_def Let_def executed_append)

lemma run_result:
  "fst (run w cmd cwd env s)
     = (case fst (subprocess_run w cmd cwd (fs s)) of None \<Rightarrow> Inr () | Some e \<Rightarrow> Inl e)"
  by (simp add: run_def Let_def)

lemma rmtree_trace: "trace (snd (rmtree p s)) = trace s"
  by (simp add: rmtree_def split: option.splits node.splits)

lemma copytree_trace: "trace (snd (copytree w src dst s)) = trace s"
  by (simp add: copytree_def split: option.splits node.splits)

lemma print_executed: "executed (trace (print msg s)) = executed (trace s)"
  by (simp add: print_def executed_append)

lemma ensure_backend_sources_given:
  "source_path a = Some sp \<Longrightarrow> ensure_backend_sources w a s = copy_from w sp a s"
  by (simp add: ensure_backend_sources_def copy_from_def Let_def)

lemma ensure_backend_sources_adopt:
  "source_path a = None \<Longrightarrow> exists s (local_candidate w) \<Longrightarrow>
   ensure_backend_sources w a s
     = copy_from w (local_candidate w) (a\<lparr>source_path := Some (local_candidate w)\<rparr>) s"
  by (simp add: ensure_backend_sources_def copy_from_def Let_def)

lemma ensure_backend_sources_skip:
  "source_path a = None \<Longrightarrow> \<not> exists s (local_candidate w) \<Longrightarrow> exists s (BACKEND_SRC_DIR w) \<Longrightarrow>
   ensure_backend_sources w a s = (Inr (), a, print existing_checkout_msg s)"
  by (simp add: ensure_backend_sources_def Let_def)

lemma ensure_backend_sources_clone:
  "source_path a = None \<Longrightarrow> \<not> exists s (local_candidate w) \<Longrightarrow> \<not> exists s (BACKEND_SRC_DIR w) \<Longrightarrow>
   ensure_backend_sources w a s =
     (case run w (git_clone_cmd w) None [] s of
        (Inl e, s1) \<Rightarrow> (Inl e, a, s1)
      | (Inr u, s1) \<Rightarrow>
          if ref a \<noteq> [] \<and> ref a \<noteq> ''main''
          then (case run w (git_checkout_cmd (ref a)) (Some (BACKEND_SRC_DIR w)) [] s1 of
                  (r, s2) \<Rightarrow> (r, a, s2))
          else (Inr (), a, s1))"
  by (simp add: ensure_backend_sources_def Let_def)

lemma copy_from_trace_cases:
  "trace (snd (snd (copy_from w sp a1 s))) = trace s
   \<or> trace (snd (snd (copy_from w sp a1 s))) = trace s @ [Print (copied_msg (resolve sp))]"
proof -
  obtain r1 s1 where r: "(if exists s (BACKEND_SRC_DIR w) then rmtree (BACKEND_SRC_DIR w) s else (Inr (), s)) = (r1, s1)"
    by (cases "(if exists s (BACKEND_SRC_DIR w) then rmtree (BACKEND_SRC_DIR w) s else (Inr (), s))")
  then have t1: "trace s1 = trace s"
    by (metis rmtree_trace snd_conv)
  obtain r2 s2 where c: "copytree w (resolve sp) (BACKEND_SRC_DIR w) s1 = (r2, s2)"
    by (cases "copytree w (resolve sp) (BACKEND_SRC_DIR w) s1")
  then have t2: "trace s2 = trace s"
    using copytree_trace [of w "resolve sp" "BACKEND_SRC_DIR w" s1] t1 by simp
  show ?thesis
    by (cases r1; cases r2) (simp_all add: copy_from_def Let_def r c t1 t2 print_def)
qed

lemma copy_from_executed: "executed (trace (snd (snd (copy_from w sp a1 s)))) = executed (trace s)"
  using copy_from_trace_cases [of w sp a1 s] by (auto simp add: executed_append)

lemma local_source_no_subprocess:
  assumes "source_path a \<noteq> None \<or> exists s (local_candidate w)"
  shows "executed (trace (snd (snd (ensure_backend_sources w a s)))) = executed (trace s)"
proof (cases "source_path a")
  case None
  with assms show ?thesis
    by (simp add: ensure_backend_sources_adopt copy_from_executed)
next
  case (Some sp)
  then show ?thesis
    by (simp add: ensure_backend_sources_given copy_from_executed)
qed

lemma clone_branch_executed:
  assumes "source_path a = None"
    and "\<not> exists s (local_candidate w)"
    and "\<not> exists s (BACKEND_SRC_DIR w)"
  shows "executed (trace (snd (snd (ensure_backend_sources w a s))))
           = executed (trace s) @ git_clone_cmd w #
               (if fst (subprocess_run w (git_clone_cmd w) None (fs s)) = None
                   \<and> ref a \<noteq> [] \<and> ref a \<noteq> ''main''
                then [git_checkout_cmd (ref a)] else [])"
proof -
  obtain r1 s1 where r: "run w (git_clone_cmd w) None [] s = (r1, s1)"
    by (cases "run w (git_clone_cmd w) None [] s")
  have e1: "executed (trace s1) = executed (trace s) @ [git_clone_cmd w]"
    using run_executed [of w "git_clone_cmd w" None "[]" s] r by simp
  have r1: "r1 = (case fst (subprocess_run w (git_clone_cmd w) None (fs s)) of None \<Rightarrow> Inr () | Some e \<Rightarrow> Inl e)"
    using run_result [of w "git_clone_cmd w" None "[]" s] r by simp
  obtain r2 s2 where c: "run w (git_checkout_cmd (ref a)) (Some (BACKEND_SRC_DIR w)) [] s1 = (r2, s2)"
    by (cases "run w (git_checkout_cmd (ref a)) (Some (BACKEND_SRC_DIR w)) [] s1")
  have e2: "executed (trace s2) = executed (trace s1) @ [git_checkout_cmd (ref a)]"
    using run_executed [of w "git_checkout_cmd (ref a)" "Some (BACKEND_SRC_DIR w)" "[]" s1] c by simp
  show ?thesis
  proof (cases r1)
    case (Inl e)
    then have "fst (subprocess_run w (git_clone_cmd w) None (fs s)) \<noteq> None"
      using r1 by (auto split: option.splits)
    then show ?thesis
      using Inl by (simp add: ensure_backend_sources_clone [OF assms] r e1)
  next
    case (Inr u)
    then have ok: "fst (subprocess_run w (git_clone_cmd w) None (fs s)) = None"
      using r1 by (simp split: option.splits)
    show ?thesis
      using Inr by (simp add: ensure_backend_sources_clone [OF assms] r c e1 e2 ok)
  qed
qed

lemma sibling_exists: "exists sibling_state (local_candidate demo_world)"
  by (simp add: exists_def sibling_state_def add_sibling_def fresh_state_def local_candidate_def
      parent_def demo_world_def demo_root_def)

lemma sibling_not_staged: "\<not> exists sibling_state (BACKEND_SRC_DIR demo_world)"
  by (simp add: exists_def sibling_state_def add_sibling_def fresh_state_def BACKEND_SRC_DIR_def
      demo_world_def demo_root_def)

lemma fresh_nothing:
  "\<not> exists fresh_state (local_candidate demo_world) \<and> \<not> exists fresh_state (BACKEND_SRC_DIR demo_world)"
  by (simp add: exists_def fresh_state_def local_candidate_def BACKEND_SRC_DIR_def
      parent_def demo_world_def demo_root_def)

lemma ancestors_ok_cong:
  assumes "\<And>q. prefix q (butlast p) \<Longrightarrow> g q = f q"
  shows "ancestors_ok g p = ancestors_ok f p"
  using assms by (auto simp add: ancestors_ok_def list_ex_iff)

lemma prefix_butlast_not_above:
  assumes "prefix q (butlast p)" and "p \<noteq> []" shows "\<not> prefix p q"
proof
  assume "prefix p q"
  then have "length p \<le> length q" by (rule prefix_length_le)
  moreover from assms(1) have "length q \<le> length (butlast p)" by (rule prefix_length_le)
  ultimately show False using \<open>p \<noteq> []\<close> by (cases p rule: rev_cases) simp_all
qed

lemma copytree_ok:
  assumes src: "fs s src = Some Dir"
    and dst: "fs s dst = None"
    and anc: "ancestors_ok (fs s) dst"
    and apart: "\<not> prefix src dst"
  shows "copytree w src dst s =
           (Inr (), s\<lparr>fs := (\<lambda>q.
              if prefix dst q then
                (if list_ex ignored (drop (length dst) q) then None
                 else fs s (src @ drop (length dst) q))
              else if prefix q dst \<and> fs s q = None then Some Dir
              else fs s q)\<rparr>)"
proof -
  have "\<not> prefix (src @ rest) dst" for rest
    using apart by (meson append_prefixD)
  then have "copied_entry (fs s) src dst rest
               = (if list_ex ignored rest then None else fs s (src @ rest))" for rest
    by (simp add: copied_entry_def)
  then have "(\<lambda>q. if prefix dst q then copied_entry (fs s) src dst (drop (length dst) q)
                  else makedirs dst (fs s) q)
           = (\<lambda>q. if prefix dst q then
                (if list_ex ignored (drop (length dst) q) then None
                 else fs s (src @ drop (length dst) q))
              else if prefix q dst \<and> fs s q = None then Some Dir
              else fs s q)"
    by (simp add: fun_eq_iff makedirs_def)
  then show ?thesis
    using src dst anc apart by (simp add: copytree_def runs_into_itself_def)
qed

lemma rmtree_ok:
  "fs s p = Some Dir \<Longrightarrow>
   rmtree p s = (Inr (), s\<lparr>fs := (\<lambda>q. if prefix p q then None else fs s q)\<rparr>)"
  by (simp add: rmtree_def)

lemma copy_from_ok:
  assumes src: "fs s sp = Some Dir"
    and dst: "fs s (BACKEND_SRC_DIR w) = None \<or> fs s (BACKEND_SRC_DIR w) = Some Dir"
    and anc: "ancestors_ok (fs s) (BACKEND_SRC_DIR w)"
    and apart1: "\<not> prefix sp (BACKEND_SRC_DIR w)"
    and apart2: "\<not> prefix (BACKEND_SRC_DIR w) sp"
  shows "copy_from w sp a1 s =
           (Inr (), a1,
            s\<lparr>fs := (\<lambda>q.
                 if prefix (BACKEND_SRC_DIR w) q then
                   (if list_ex ignored (drop (length (BACKEND_SRC_DIR w)) q) then None
                    else fs s (sp @ drop (length (BACKEND_SRC_DIR w)) q))
                 else if prefix q (BACKEND_SRC_DIR w) \<and> fs s q = None then Some Dir
                 else fs s q),
              trace := trace s @ [Print (copied_msg sp)]\<rparr>)"
proof -
  let ?B = "BACKEND_SRC_DIR w"
  have ex: "exists s (resolve sp)" using src by (simp add: exists_def resolve_def)
  have under: "\<not> prefix ?B (sp @ r)" for r
  proof
    assume "prefix ?B (sp @ r)"
    moreover have "prefix sp (sp @ r)" by simp
    ultimately have "prefix ?B sp \<or> prefix sp ?B" by (rule prefix_same_cases)
    with apart1 apart2 show False by blast
  qed
  show ?thesis
  proof (cases "fs s ?B")
    case None
    then have nex: "\<not> exists s ?B" by (simp add: exists_def)
    show ?thesis
      using ex nex copytree_ok [OF src None anc apart1]
      by (simp add: copy_from_def resolve_def print_def)
  next
    case (Some n)
    with dst have d: "fs s ?B = Some Dir" by simp
    then have isex: "exists s ?B" by (simp add: exists_def)
    let ?s1 = "s\<lparr>fs := (\<lambda>q. if prefix ?B q then None else fs s q)\<rparr>"
    have src1: "fs ?s1 sp = Some Dir" using src apart2 by simp
    have dst1: "fs ?s1 ?B = None" by simp
    have anc1: "ancestors_ok (fs ?s1) ?B"
    proof -
      have "?B \<noteq> []" by (simp add: BACKEND_SRC_DIR_def)
      then have "fs ?s1 q = fs s q" if "prefix q (butlast ?B)" for q
        using prefix_butlast_not_above [OF that] by simp
      then show ?thesis
        using anc ancestors_ok_cong [of ?B "fs ?s1" "fs s"] by blast
    qed
    have eq: "(\<lambda>q. if prefix ?B q then
                   (if list_ex ignored (drop (length ?B) q) then None
                    else fs ?s1 (sp @ drop (length ?B) q))
                 else if prefix q ?B \<and> fs ?s1 q = None then Some Dir
                 else fs ?s1 q)
            = (\<lambda>q. if prefix ?B q then
                   (if list_ex ignored (drop (length ?B) q) then None
                    else fs s (sp @ drop (length ?B) q))
                 else if prefix q ?B \<and> fs s q = None then Some Dir
                 else fs s q)"
      using under by (auto simp add: fun_eq_iff)
    show ?thesis
      using ex isex rmtree_ok [OF d] copytree_ok [OF src1 dst1 anc1 apart1] eq
      by (simp add: copy_from_def resolve_def print_def)
  qed
qed

lemma sibling_paths:
  assumes "ROOT w = R @ [repo, bb]" and "repo \<noteq> ''kshana''"
  shows "local_candidate w = R @ [''kshana'']"
    and "\<not> prefix (local_candidate w) (BACKEND_SRC_DIR w)"
    and "\<not> prefix (BACKEND_SRC_DIR w) (local_candidate w)"
  using assms by (simp_all add: local_candidate_def parent_def BACKEND_SRC_DIR_def butlast_append)

lemma adopt_sibling:
  assumes none: "source_path a = None"
    and root: "ROOT w = R @ [repo, bb]" and repo: "repo \<noteq> ''kshana''"
    and cand: "fs s (local_candidate w) = Some Dir"
    and staged: "fs s (BACKEND_SRC_DIR w) = None \<or> fs s (BACKEND_SRC_DIR w) = Some Dir"
    and anc: "ancestors_ok (fs s) (BACKEND_SRC_DIR w)"
  shows "ensure_backend_sources w a s =
           (Inr (), a\<lparr>source_path := Some (local_candidate w)\<rparr>,
            s\<lparr>fs := (\<lambda>q.
                 if prefix (BACKEND_SRC_DIR w) q then
                   (if list_ex ignored (drop (length (BACKEND_SRC_DIR w)) q) then None
                    else fs s (local_candidate w @ drop (length (BACKEND_SRC_DIR w)) q))
                 else if prefix q (BACKEND_SRC_DIR w) \<and> fs s q = None then Some Dir
                 else fs s q),
              trace := trace s @ [Print (copied_msg (local_candidate w))]\<rparr>)"
proof -
  have ex: "exists s (local_candidate w)" using cand by (simp add: exists_def)
  show ?thesis
    unfolding ensure_backend_sources_adopt [OF none ex]
    by (rule copy_from_ok [OF cand staged anc sibling_paths(2) [OF root repo] sibling_paths(3) [OF root repo]])
qed

text \<open>
  C3. When \<^verbatim>\<open>--source-path\<close> is not supplied and a directory \<^verbatim>\<open>kshana\<close> lies two levels
  above the build script, next to the repository (whose own directory is not called
  \<^verbatim>\<open>kshana\<close>), source acquisition succeeds and adopts that directory as
  \<^verbatim>\<open>args.source_path\<close>, whether or not a staged tree exists: afterwards the staging
  directory holds exactly the entries of the sibling that no ignore pattern excludes, so
  whatever was staged before is gone; everything beside the staging directory is as before;
  no subprocess is launched (no clone) and the only thing printed is the notice of the copy
  (no skip).
\<close>

theorem sibling_checkout_adopted:
  assumes "source_path a = None"
    and "ROOT w = R @ [repo, bb]" and "repo \<noteq> ''kshana''"
    and "fs s (local_candidate w) = Some Dir"
    and "fs s (BACKEND_SRC_DIR w) = None \<or> fs s (BACKEND_SRC_DIR w) = Some Dir"
    and "ancestors_ok (fs s) (BACKEND_SRC_DIR w)"
  shows "fst (ensure_backend_sources w a s) = Inr ()
     \<and> fst (snd (ensure_backend_sources w a s)) = a\<lparr>source_path := Some (local_candidate w)\<rparr>
     \<and> trace (snd (snd (ensure_backend_sources w a s)))
         = trace s @ [Print (copied_msg (local_candidate w))]
     \<and> executed (trace (snd (snd (ensure_backend_sources w a s)))) = executed (trace s)
     \<and> (\<forall>rest. fs (snd (snd (ensure_backend_sources w a s))) (BACKEND_SRC_DIR w @ rest)
           = (if list_ex ignored rest then None else fs s (local_candidate w @ rest)))
     \<and> (\<forall>q. \<not> prefix (BACKEND_SRC_DIR w) q \<longrightarrow> \<not> prefix q (BACKEND_SRC_DIR w) \<longrightarrow>
           fs (snd (snd (ensure_backend_sources w a s))) q = fs s q)"
  unfolding adopt_sibling [OF assms] by (simp add: executed_append)

lemma demo_root_split: "ROOT demo_world = [''home'', ''dev''] @ [''kshana-desktop'', ''backend-build'']"
  by (simp add: demo_world_def demo_root_def)

lemma demo_repo_name: "''kshana-desktop'' \<noteq> ''kshana''"
  by simp

lemma demo_candidate: "local_candidate demo_world = [''home'', ''dev'', ''kshana'']"
  using sibling_paths(1) [OF demo_root_split demo_repo_name] by simp

lemma demo_backend: "BACKEND_SRC_DIR demo_world = [''home'', ''dev'', ''kshana-desktop'', ''backend-build'', ''kshana'']"
  by (simp add: BACKEND_SRC_DIR_def demo_world_def demo_root_def)

lemma sibling_staged_facts:
  "fs sibling_staged_state (local_candidate demo_world) = Some Dir"
  "fs sibling_staged_state (BACKEND_SRC_DIR demo_world) = None \<or> fs sibling_staged_state (BACKEND_SRC_DIR demo_world) = Some Dir"
  "ancestors_ok (fs sibling_staged_state) (BACKEND_SRC_DIR demo_world)"
  by (simp_all add: demo_candidate demo_backend sibling_staged_state_def add_sibling_def
      staged_state_def fresh_state_def demo_root_def ancestors_ok_def is_file_def)

lemma demo_no_source: "source_path demo_args = None"
  by (simp add: demo_args_def)

theorem sibling_checkout_adopted_witness:
  "fs (snd (snd (ensure_backend_sources demo_world demo_args sibling_staged_state)))
      (BACKEND_SRC_DIR demo_world @ [''main.py'']) = Some (File ''print(1)'')
   \<and> fs (snd (snd (ensure_backend_sources demo_world demo_args sibling_staged_state)))
      (BACKEND_SRC_DIR demo_world @ [''.git'', ''HEAD'']) = None
   \<and> fs (snd (snd (ensure_backend_sources demo_world demo_args sibling_staged_state)))
      (BACKEND_SRC_DIR demo_world @ [''old.txt'']) = None
   \<and> executed (trace (snd (snd (ensure_backend_sources demo_world demo_args sibling_staged_state)))) = []"
proof -
  note t = sibling_checkout_adopted [OF demo_no_source demo_root_split demo_repo_name sibling_staged_facts]
  have a: "fs sibling_staged_state (local_candidate demo_world @ [''main.py'']) = Some (File ''print(1)'')"
    and b: "fs sibling_staged_state (local_candidate demo_world @ [''old.txt'']) = None"
    and c: "trace sibling_staged_state = []"
    by (simp_all add: demo_candidate sibling_staged_state_def add_sibling_def
      staged_state_def fresh_state_def demo_root_def)
  have i1: "\<not> list_ex ignored [''main.py'']" and i2: "list_ex ignored [''.git'', ''HEAD'']"
    and i3: "\<not> list_ex ignored [''old.txt'']"
    by (simp_all add: ignored_def suffix_to_prefix)
  from t a b c i1 i2 i3 show ?thesis by simp
qed

text \<open>
  C2 (as amended). When \<^verbatim>\<open>--source-path\<close> is not supplied, nothing exists at
  \<^verbatim>\<open>ROOT.parent.parent / "kshana"\<close> and a staged tree exists, source acquisition returns
  normally with the namespace as it was, the filesystem as it was and no subprocess
  launched: all it does is print the notice that an existing checkout was detected.
\<close>

theorem staged_tree_kept:
  assumes "source_path a = None"
    and "\<not> exists s (local_candidate w)"
    and "exists s (BACKEND_SRC_DIR w)"
  shows "ensure_backend_sources w a s
           = (Inr (), a, s\<lparr>trace := trace s @ [Print existing_checkout_msg]\<rparr>)
     \<and> fs (snd (snd (ensure_backend_sources w a s))) = fs s
     \<and> executed (trace (snd (snd (ensure_backend_sources w a s)))) = executed (trace s)"
  by (simp add: ensure_backend_sources_skip [OF assms] print_def executed_append)

lemma staged_facts:
  "\<not> exists staged_state (local_candidate demo_world)"
  "exists staged_state (BACKEND_SRC_DIR demo_world)"
  by (simp_all add: exists_def demo_candidate demo_backend staged_state_def fresh_state_def demo_root_def)

theorem staged_tree_kept_witness:
  "ensure_backend_sources demo_world demo_args staged_state
     = (Inr (), demo_args, staged_state\<lparr>trace := [Print existing_checkout_msg]\<rparr>)"
proof -
  have "trace staged_state = []"
    by (simp add: staged_state_def fresh_state_def)
  with staged_tree_kept [OF demo_no_source staged_facts] show ?thesis by simp
qed

text \<open>
  Without the condition on the sibling directory the statement fails: with a checkout of the
  backend next to the repository, the staged tree is replaced and the file it held is gone.
\<close>

theorem staged_tree_replaced_counterexample:
  "source_path demo_args = None
   \<and> exists sibling_staged_state (BACKEND_SRC_DIR demo_world)
   \<and> fs sibling_staged_state (BACKEND_SRC_DIR demo_world @ [''old.txt'']) = Some (File ''stale'')
   \<and> fs (snd (snd (ensure_backend_sources demo_world demo_args sibling_staged_state)))
        (BACKEND_SRC_DIR demo_world @ [''old.txt'']) = None"
proof -
  have a: "exists sibling_staged_state (BACKEND_SRC_DIR demo_world)"
    and b: "fs sibling_staged_state (BACKEND_SRC_DIR demo_world @ [''old.txt'']) = Some (File ''stale'')"
    and c: "fs sibling_staged_state (local_candidate demo_world @ [''old.txt'']) = None"
    by (simp_all add: exists_def demo_candidate demo_backend sibling_staged_state_def add_sibling_def
      staged_state_def fresh_state_def demo_root_def)
  have i: "\<not> list_ex ignored [''old.txt'']"
    by (simp add: ignored_def suffix_to_prefix)
  have "fs (snd (snd (ensure_backend_sources demo_world demo_args sibling_staged_state)))
        (BACKEND_SRC_DIR demo_world @ [''old.txt'']) = None"
    unfolding adopt_sibling [OF demo_no_source demo_root_split demo_repo_name sibling_staged_facts]
    using c i by simp
  with a b show ?thesis by (simp add: demo_no_source)
qed

subsection \<open>The namespace\<close>

lemma copy_from_args: "fst (snd (copy_from w sp a1 s)) = a1"
  by (simp add: copy_from_def Let_def split: prod.splits sum.splits)

lemma ensure_backend_sources_args:
  "fst (snd (ensure_backend_sources w a s))
     = (if source_path a = None \<and> exists s (local_candidate w)
        then a\<lparr>source_path := Some (local_candidate w)\<rparr> else a)"
proof (cases "source_path a")
  case (Some sp)
  then show ?thesis by (simp add: ensure_backend_sources_given copy_from_args)
next
  case None
  show ?thesis
  proof (cases "exists s (local_candidate w)")
    case True
    with None show ?thesis by (simp add: ensure_backend_sources_adopt copy_from_args)
  next
    case False
    show ?thesis
    proof (cases "exists s (BACKEND_SRC_DIR w)")
      case True
      with None False show ?thesis by (simp add: ensure_backend_sources_skip)
    next
      case nb: False
      show ?thesis
        using False
        by (simp add: ensure_backend_sources_clone [OF None False nb] split: prod.splits sum.splits)
    qed
  qed
qed

lemma pipeline_args: "fst (snd (pipeline w a s)) = fst (snd (ensure_backend_sources w a s))"
  by (simp add: pipeline_def split: prod.splits sum.splits)

lemma main_args:
  "fst (snd (main w a s)) = a
   \<or> (\<exists>s0. fst (snd (main w a s)) = fst (snd (ensure_backend_sources w a s0)))"
  by (auto simp add: main_def pipeline_args split: prod.splits sum.splits)

text \<open>
  C4 (as amended). The namespace is changed in one place only: when \<^verbatim>\<open>--source-path\<close> was
  not supplied and \<^verbatim>\<open>ROOT.parent.parent / "kshana"\<close> exists, source acquisition sets
  \<^verbatim>\<open>args.source_path\<close> to that path. So after the pipeline, however it ends, the revision,
  the platform, the interpreter path and the clean flag are those of argument parsing, and
  the source path is too unless it was missing and has become the sibling directory.
\<close>

theorem args_after_pipeline:
  "(fst (snd (main w a s)) = a
      \<or> source_path a = None
        \<and> fst (snd (main w a s)) = a\<lparr>source_path := Some (local_candidate w)\<rparr>)
   \<and> fst (snd (ensure_backend_sources w a s))
       = (if source_path a = None \<and> exists s (local_candidate w)
          then a\<lparr>source_path := Some (local_candidate w)\<rparr> else a)"
  using main_args [of w a s] by (auto simp add: ensure_backend_sources_args split: if_splits)

theorem args_after_pipeline_witness:
  "fst (snd (main demo_world demo_args fresh_state)) = demo_args
   \<and> fst (snd (ensure_backend_sources demo_world demo_args sibling_state))
       = demo_args\<lparr>source_path := Some [''home'', ''dev'', ''kshana'']\<rparr>"
proof -
  have "demo_args\<lparr>source_path := Some (local_candidate demo_world)\<rparr> \<noteq> demo_args"
    by (simp add: demo_args_def)
  moreover have "fst (snd (main demo_world demo_args fresh_state)) \<noteq> demo_args\<lparr>source_path := Some (local_candidate demo_world)\<rparr>"
    using fresh_nothing
    by (simp add: main_def pipeline_args ensure_backend_sources_args demo_args_def split: prod.splits sum.splits)
  ultimately show ?thesis
    using args_after_pipeline [of demo_world demo_args fresh_state]
      args_after_pipeline [of demo_world demo_args sibling_state] sibling_exists
    by (simp add: demo_candidate demo_no_source)
qed

text \<open>
  The namespace does change: with a checkout of the backend next to the repository and no
  \<^verbatim>\<open>--source-path\<close>, the pipeline ends with a namespace that differs from the parsed one.
\<close>

theorem args_mutated_counterexample:
  "fst (snd (main demo_world demo_args sibling_state)) \<noteq> demo_args"
proof -
  have "fst (snd (main demo_world demo_args sibling_state))
          = demo_args\<lparr>source_path := Some (local_candidate demo_world)\<rparr>"
    using sibling_exists
    by (simp add: main_def pipeline_args ensure_backend_sources_args demo_args_def
        split: prod.splits sum.splits)
  then show ?thesis by (simp add: demo_args_def)
qed

subsection \<open>The clean step\<close>

lemma rmtree_result:
  "rmtree p s =
     (case fs s p of
        None \<Rightarrow> (Inl (FileNotFoundError (str_of_path p)), s)
      | Some Dir \<Rightarrow> (Inr (), without p s)
      | Some (File c) \<Rightarrow> (Inl (NotADirectoryError (str_of_path p)), s))"
  by (simp add: rmtree_def without_def split: option.splits node.splits)

lemma without_trace: "trace (without p s) = trace s"
  by (simp add: without_def)

lemma without_fs:
  "fs (without p s) q = (if prefix p q \<and> fs s p \<noteq> None then None else fs s q)"
  by (auto simp add: without_def)

lemma is_file_iff: "is_file n \<longleftrightarrow> (\<exists>c. n = Some (File c))"
  by (auto simp add: is_file_def split: option.splits node.splits)

lemma dist_build_apart:
  "\<not> prefix (DIST_DIR w) (BUILD_DIR w)" "\<not> prefix (BUILD_DIR w) (DIST_DIR w)"
  by (simp_all add: DIST_DIR_def BUILD_DIR_def)

lemma clean_result:
  "clean_previous_outputs w s =
     (if is_file (fs s (DIST_DIR w))
      then (Inl (NotADirectoryError (str_of_path (DIST_DIR w))), s)
      else if is_file (fs s (BUILD_DIR w))
      then (Inl (NotADirectoryError (str_of_path (BUILD_DIR w))), without (DIST_DIR w) s)
      else (Inr (), without (BUILD_DIR w) (without (DIST_DIR w) s)))"
proof -
  have b: "fs (without (DIST_DIR w) s) (BUILD_DIR w) = fs s (BUILD_DIR w)"
    by (simp add: without_fs dist_build_apart)
  show ?thesis
  proof (cases "fs s (DIST_DIR w)")
    case None
    then have w: "without (DIST_DIR w) s = s" by (simp add: without_def)
    show ?thesis
    proof (cases "fs s (BUILD_DIR w)")
      case nb: None
      then show ?thesis
        using None by (simp add: clean_previous_outputs_def exists_def is_file_def without_def)
    next
      case (Some n)
      then show ?thesis
        using None w by (cases n) (simp_all add: clean_previous_outputs_def exists_def is_file_def rmtree_result)
    qed
  next
    case (Some d)
    show ?thesis
    proof (cases d)
      case (File c)
      with Some show ?thesis
        by (simp add: clean_previous_outputs_def exists_def is_file_def rmtree_result)
    next
      case Dir
      show ?thesis
      proof (cases "fs s (BUILD_DIR w)")
        case None
        then have "without (BUILD_DIR w) (without (DIST_DIR w) s) = without (DIST_DIR w) s"
          using b by (simp add: without_def [of "BUILD_DIR w"])
        then show ?thesis
          using Some Dir None b
          by (simp add: clean_previous_outputs_def exists_def is_file_def rmtree_result)
      next
        case sb: (Some n)
        then show ?thesis
          using Some Dir b
          by (cases n) (simp_all add: clean_previous_outputs_def exists_def is_file_def rmtree_result)
      qed
    qed
  qed
qed

lemma clean_trace: "trace (snd (clean_previous_outputs w s)) = trace s"
  by (simp add: clean_result without_trace)

lemma clean_creates_nothing:
  "exists (snd (clean_previous_outputs w s)) q \<Longrightarrow> exists s q"
  by (auto simp add: clean_result exists_def without_fs split: if_splits)

lemma main_clean:
  "clean a \<Longrightarrow>
   main w a s =
     (case clean_previous_outputs w s of
        (Inl e, s0) \<Rightarrow> (Inl e, a, s0)
      | (Inr u, s0) \<Rightarrow> pipeline w a s0)"
  by (simp add: main_def)

lemma main_no_clean: "\<not> clean a \<Longrightarrow> main w a s = pipeline w a s"
  by (simp add: main_def)

lemma pipeline_missing_source:
  "source_path a = Some P \<Longrightarrow> \<not> exists s P \<Longrightarrow>
   pipeline w a s = (Inl (FileNotFoundError (missing_source_msg P)), a, s)"
  by (simp add: pipeline_def ensure_backend_sources_given copy_from_def resolve_def)

lemma main_missing_source:
  assumes "source_path a = Some P" and "\<not> exists s P"
  shows "main w a s =
     (if clean a \<and> is_file (fs s (DIST_DIR w))
      then (Inl (NotADirectoryError (str_of_path (DIST_DIR w))), a, s)
      else if clean a \<and> is_file (fs s (BUILD_DIR w))
      then (Inl (NotADirectoryError (str_of_path (BUILD_DIR w))), a, without (DIST_DIR w) s)
      else (Inl (FileNotFoundError (missing_source_msg P)), a,
            if clean a then without (BUILD_DIR w) (without (DIST_DIR w) s) else s))"
proof (cases "clean a")
  case False
  then show ?thesis by (simp add: main_no_clean pipeline_missing_source [OF assms])
next
  case True
  have "\<not> exists (without (BUILD_DIR w) (without (DIST_DIR w) s)) P"
    using assms(2) by (simp add: exists_def without_fs)
  then show ?thesis
    using True by (simp add: main_clean clean_result pipeline_missing_source [OF assms(1)])
qed

text \<open>
  C6 (as amended). When \<^verbatim>\<open>--source-path\<close> names a path that does not exist, the workflow
  ends with an error before any provisioning or build step: it prints nothing, launches no
  subprocess (no environment is created, nothing is installed, the bundler is not invoked)
  and creates nothing. The error is the missing-source error whenever the clean step did not
  fail first, that is without \<^verbatim>\<open>--clean\<close>, or when neither the output path nor the
  intermediate path is a regular file; without \<^verbatim>\<open>--clean\<close> the state is unchanged.
\<close>

theorem missing_source_aborts:
  assumes "source_path a = Some P" and "\<not> exists s P"
  shows "(\<exists>e. fst (main w a s) = Inl e)
     \<and> trace (snd (snd (main w a s))) = trace s
     \<and> executed (trace (snd (snd (main w a s)))) = executed (trace s)
     \<and> (\<forall>q. exists (snd (snd (main w a s))) q \<longrightarrow> exists s q)
     \<and> ((clean a \<longrightarrow> \<not> is_file (fs s (DIST_DIR w)) \<and> \<not> is_file (fs s (BUILD_DIR w)))
          \<longrightarrow> fst (main w a s) = Inl (FileNotFoundError (missing_source_msg P)))
     \<and> (\<not> clean a \<longrightarrow> snd (snd (main w a s)) = s)"
  unfolding main_missing_source [OF assms]
  by (auto simp add: without_trace exists_def without_fs split: if_splits)

lemma missing_facts:
  "source_path missing_args = Some [''home'', ''dev'', ''nowhere'']"
  "source_path missing_clean_args = Some [''home'', ''dev'', ''nowhere'']"
  "\<not> exists fresh_state [''home'', ''dev'', ''nowhere'']"
  "\<not> exists dist_file_state [''home'', ''dev'', ''nowhere'']"
  by (simp_all add: missing_args_def missing_clean_args_def demo_args_def exists_def
      dist_file_state_def fresh_state_def demo_root_def)

theorem missing_source_aborts_witness:
  "main demo_world missing_args fresh_state
     = (Inl (FileNotFoundError ''Provided source path does not exist: /home/dev/nowhere''),
        missing_args, fresh_state)"
proof -
  have nc: "\<not> clean missing_args" by (simp add: missing_args_def demo_args_def)
  have a: "fst (snd (main demo_world missing_args fresh_state)) = missing_args"
    using nc by (simp add: main_no_clean pipeline_missing_source [OF missing_facts(1) missing_facts(3)])
  have m: "missing_source_msg [''home'', ''dev'', ''nowhere''] = ''Provided source path does not exist: /home/dev/nowhere''"
    by (simp add: missing_source_msg_def str_of_path_def)
  from missing_source_aborts [OF missing_facts(1) missing_facts(3), of demo_world] nc a m
  show ?thesis by (simp add: prod_eq_iff)
qed

text \<open>
  With \<^verbatim>\<open>--clean\<close> and a regular file where the output directory should be, the clean step
  raises before the source path is looked at, and the error is not the missing-source error.
\<close>

theorem clean_fails_first_counterexample:
  "source_path missing_clean_args = Some [''home'', ''dev'', ''nowhere'']
   \<and> \<not> exists dist_file_state [''home'', ''dev'', ''nowhere'']
   \<and> fst (main demo_world missing_clean_args dist_file_state)
       = Inl (NotADirectoryError ''/home/dev/kshana-desktop/backend-build/dist'')"
proof -
  have c: "clean missing_clean_args" by (simp add: missing_clean_args_def)
  have f: "is_file (fs dist_file_state (DIST_DIR demo_world))"
    by (simp add: is_file_def dist_file_state_def DIST_DIR_def demo_world_def)
  have p: "str_of_path (DIST_DIR demo_world) = ''/home/dev/kshana-desktop/backend-build/dist''"
    by (simp add: str_of_path_def DIST_DIR_def demo_world_def demo_root_def)
  show ?thesis
    using c f p by (simp add: main_missing_source [OF missing_facts(2) missing_facts(4)] missing_facts)
qed

subsection \<open>The build step\<close>

lemma mkdir_p_ok:
  assumes "\<not> is_file (fs t p)" and "ancestors_ok (fs t) p"
  shows "\<exists>t'. mkdir_p p t = (Inr (), t') \<and> fs t' p = Some Dir \<and> trace t' = trace t
           \<and> (\<forall>q. fs t' q = fs t q \<or> fs t q = None \<and> prefix q p \<and> fs t' q = Some Dir)"
proof (cases "fs t p")
  case None
  with assms(2) show ?thesis by (simp add: mkdir_p_def)
next
  case (Some n)
  with assms(1) have "fs t p = Some Dir" by (cases n) (simp_all add: is_file_def)
  then show ?thesis by (simp add: mkdir_p_def)
qed

lemma ancestors_dist_build: "ancestors_ok f (BUILD_DIR w) = ancestors_ok f (DIST_DIR w)"
  by (simp add: ancestors_ok_def BUILD_DIR_def DIST_DIR_def butlast_append)

lemma build_bundle_creates:
  assumes d: "\<not> is_file (fs t (DIST_DIR w))" and b: "\<not> is_file (fs t (BUILD_DIR w))"
    and anc: "ancestors_ok (fs t) (DIST_DIR w)"
  shows "\<exists>t'. build_bundle w py suf t
               = run w (pyinstaller_cmd w py suf) (Some (ROOT w))
                   [(''PYTHONPATH'', str_of_path (BACKEND_SRC_DIR w))] t'
           \<and> fs t' (DIST_DIR w) = Some Dir \<and> fs t' (BUILD_DIR w) = Some Dir
           \<and> trace t' = trace t
           \<and> (\<forall>q. fs t q \<noteq> None \<longrightarrow> fs t' q = fs t q)"
proof -
  from mkdir_p_ok [OF d anc] obtain t1 where
    m1: "mkdir_p (DIST_DIR w) t = (Inr (), t1)" and d1: "fs t1 (DIST_DIR w) = Some Dir"
    and tr1: "trace t1 = trace t"
    and f1: "\<And>q. fs t1 q = fs t q \<or> fs t q = None \<and> prefix q (DIST_DIR w) \<and> fs t1 q = Some Dir"
    by blast
  have b1: "\<not> is_file (fs t1 (BUILD_DIR w))"
    using f1 [of "BUILD_DIR w"] b dist_build_apart(2) [of w] by auto
  have nf: "\<not> is_file (fs t1 q)" if "\<not> is_file (fs t q)" for q
    using f1 [of q] that by (auto simp add: is_file_def)
  have anc1: "ancestors_ok (fs t1) (BUILD_DIR w)"
    using anc nf unfolding ancestors_dist_build by (auto simp add: ancestors_ok_def list_ex_iff)
  from mkdir_p_ok [OF b1 anc1] obtain t2 where
    m2: "mkdir_p (BUILD_DIR w) t1 = (Inr (), t2)" and b2: "fs t2 (BUILD_DIR w) = Some Dir"
    and tr2: "trace t2 = trace t1"
    and f2: "\<And>q. fs t2 q = fs t1 q \<or> fs t1 q = None \<and> prefix q (BUILD_DIR w) \<and> fs t2 q = Some Dir"
    by blast
  have d2: "fs t2 (DIST_DIR w) = Some Dir"
    using f2 [of "DIST_DIR w"] d1 by auto
  have keep: "fs t2 q = fs t q" if "fs t q \<noteq> None" for q
    using f1 [of q] f2 [of q] that by auto
  have "build_bundle w py suf t
          = run w (pyinstaller_cmd w py suf) (Some (ROOT w))
              [(''PYTHONPATH'', str_of_path (BACKEND_SRC_DIR w))] t2"
    by (simp add: build_bundle_def m1 m2)
  with d2 b2 tr1 tr2 keep show ?thesis by auto
qed

subsection \<open>What the stages launch\<close>

lemma module_run_not_git: "module_run c \<Longrightarrow> \<not> is_git_clone c \<and> \<not> is_git_checkout c"
proof (cases c)
  case Nil
  then show ?thesis by (simp add: is_git_clone_def is_git_checkout_def)
next
  case (Cons x xs)
  assume "module_run c"
  with Cons show ?thesis
    by (cases xs) (auto simp add: module_run_def is_git_clone_def is_git_checkout_def)
qed

lemma launches_refl: "launches_only P s s"
  by (simp add: launches_only_def)

lemma launches_same_trace: "trace s' = trace s \<Longrightarrow> launches_only P s s'"
  by (simp add: launches_only_def)

lemma launches_trans:
  "launches_only P s s1 \<Longrightarrow> launches_only P s1 s2 \<Longrightarrow> launches_only P s s2"
  by (auto simp add: launches_only_def)

lemma launches_run:
  assumes "run w cmd cwd env s = (r, s')" and "P cmd"
  shows "launches_only P s s'"
  using run_executed [of w cmd cwd env s] assms by (auto simp add: launches_only_def)

lemma launches_print: "launches_only P s (print msg s)"
  by (simp add: launches_only_def print_executed)

lemma mkdir_p_trace: "trace (snd (mkdir_p p s)) = trace s"
  by (simp add: mkdir_p_def split: option.splits node.splits)

lemma module_cmds:
  "module_run (venv_cmd w py)" "module_run (pip_upgrade_cmd w)" "module_run (pip_install_cmd w)"
  "module_run (pyinstaller_cmd w bin suf)"
  by (simp_all add: module_run_def venv_cmd_def pip_upgrade_cmd_def pip_install_cmd_def
      pyinstaller_cmd_def)

lemma ensure_venv_launches: "launches_only module_run s (snd (ensure_venv w py s))"
proof (cases "ensure_python_version w py")
  case (Inl e)
  then show ?thesis by (simp add: ensure_venv_def launches_refl)
next
  case (Inr u)
  obtain r1 s1 where a: "(if \<not> exists s (VENV_PATH w) then run w (venv_cmd w py) None [] s
                 else (Inr (), s)) = (r1, s1)"
    by (cases "(if \<not> exists s (VENV_PATH w) then run w (venv_cmd w py) None [] s
                 else (Inr (), s))")
  have l1: "launches_only module_run s s1"
    using a launches_run [of w "venv_cmd w py" None "[]" s r1 s1 module_run]
    by (auto simp add: module_cmds launches_refl split: if_splits)
  obtain r2 s2 where b: "run w (pip_upgrade_cmd w) None [] s1 = (r2, s2)"
    by (cases "run w (pip_upgrade_cmd w) None [] s1")
  have l2: "launches_only module_run s s2"
    using l1 launches_run [where P = module_run, OF b module_cmds(2)] by (rule launches_trans)
  obtain r3 s3 where c: "run w (pip_install_cmd w) None [] s2 = (r3, s3)"
    by (cases "run w (pip_install_cmd w) None [] s2")
  have l3: "launches_only module_run s s3"
    using l2 launches_run [where P = module_run, OF c module_cmds(3)] by (rule launches_trans)
  show ?thesis
    using Inr a b c l1 l2 l3
    by (cases r1; cases r2; cases r3) (simp_all add: ensure_venv_def)
qed

lemma build_bundle_launches: "launches_only module_run s (snd (build_bundle w bin suf s))"
proof -
  obtain r1 s1 where a: "mkdir_p (DIST_DIR w) s = (r1, s1)" by (cases "mkdir_p (DIST_DIR w) s")
  then have t1: "trace s1 = trace s" using mkdir_p_trace [of "DIST_DIR w" s] by simp
  obtain r2 s2 where b: "mkdir_p (BUILD_DIR w) s1 = (r2, s2)" by (cases "mkdir_p (BUILD_DIR w) s1")
  then have t2: "trace s2 = trace s" using mkdir_p_trace [of "BUILD_DIR w" s1] t1 by simp
  obtain r3 s3 where c: "run w (pyinstaller_cmd w bin suf) (Some (ROOT w))
                 [(''PYTHONPATH'', str_of_path (BACKEND_SRC_DIR w))] s2 = (r3, s3)"
    by (cases "run w (pyinstaller_cmd w bin suf) (Some (ROOT w))
                 [(''PYTHONPATH'', str_of_path (BACKEND_SRC_DIR w))] s2")
  have l3: "launches_only module_run s s3"
    using launches_same_trace [OF t2] launches_run [where P = module_run, OF c module_cmds(4)] by (rule launches_trans)
  show ?thesis
    using a b c t1 t2 l3
    by (cases r1; cases r2) (simp_all add: build_bundle_def launches_same_trace)
qed

lemma pipeline_launches:
  "launches_only module_run (snd (snd (ensure_backend_sources w a s))) (snd (snd (pipeline w a s)))"
proof -
  obtain r1 a1 s1 where e: "ensure_backend_sources w a s = (r1, a1, s1)"
    by (cases "ensure_backend_sources w a s") auto
  obtain r2 s2 where v: "ensure_venv w (python a1) s1 = (r2, s2)"
    by (cases "ensure_venv w (python a1) s1")
  have l2: "launches_only module_run s1 s2"
    using ensure_venv_launches [of s1 w "python a1"] v by simp
  show ?thesis
  proof (cases r1)
    case (Inl x)
    with e show ?thesis by (simp add: pipeline_def launches_refl)
  next
    case (Inr u)
    show ?thesis
    proof (cases r2)
      case (Inl x)
      with e v Inr l2 show ?thesis by (simp add: pipeline_def)
    next
      case py: (Inr bin)
      obtain r3 s3 where b: "build_bundle w bin (compute_output_name w a1) s2 = (r3, s3)"
        by (cases "build_bundle w bin (compute_output_name w a1) s2")
      have "launches_only module_run s2 s3"
        using build_bundle_launches [of s2 w bin "compute_output_name w a1"] b by simp
      with l2 have l3: "launches_only module_run s1 s3" by (rule launches_trans)
      then have "launches_only module_run s1 (print success_msg s3)"
        using launches_print by (rule launches_trans)
      with l3 e v Inr py b show ?thesis by (cases r3) (simp_all add: pipeline_def)
    qed
  qed
qed

lemmas run_defs =
  main_def pipeline_def clean_previous_outputs_def ensure_backend_sources_def ensure_venv_def
  ensure_python_version_def build_bundle_def run_def rmtree_def mkdir_p_def exists_def print_def
  local_candidate_def parent_def resolve_def BACKEND_SRC_DIR_def DIST_DIR_def BUILD_DIR_def
  VENV_PATH_def SPEC_PATH_def REQUIREMENTS_PATH_def git_clone_cmd_def git_checkout_cmd_def
  venv_cmd_def pip_upgrade_cmd_def pip_install_cmd_def pyinstaller_cmd_def venv_python_bin_def
  compute_output_name_def version_query_def parse_version_def py_int_def int_strip_def
  int_space_def too_many_digits_def strip_def is_space_def is_digit_def digit_val_def
  ancestors_ok_def is_file_def str_of_path_def REPO_URL_def Let_def startswith_def
  build_world_def demo_world_def demo_root_def clean_args_def demo_args_def built_state_def
  fresh_state_def

lemma lower_linux: "lower ''Linux'' = ''linux''"
  by code_simp

text \<open>
  C9. With \<^verbatim>\<open>--clean\<close>, the clean step comes first. It fails only on an output or
  intermediate path that is a regular file, and then the workflow ends there. Otherwise it
  returns normally, prints and runs nothing, and leaves a filesystem in which the output and
  the intermediate directory, with all they held, are gone and everything else is as before;
  where both directories are absent it changes nothing. Acquisition and provisioning start
  from that filesystem, and once they have returned normally (leaving neither path a regular
  file, below existing directories) the workflow is the build step: it creates both
  directories, changes nothing that exists, and only then runs the bundler, on whose outcome
  the workflow ends.
\<close>

theorem clean_then_build:
  assumes "clean a"
  shows "(fst (clean_previous_outputs w s) = Inr ()
            \<longleftrightarrow> \<not> is_file (fs s (DIST_DIR w)) \<and> \<not> is_file (fs s (BUILD_DIR w)))
     \<and> (\<forall>e. fst (clean_previous_outputs w s) = Inl e
            \<longrightarrow> main w a s = (Inl e, a, snd (clean_previous_outputs w s)))
     \<and> (fst (clean_previous_outputs w s) = Inr () \<longrightarrow>
            main w a s = pipeline w a (snd (clean_previous_outputs w s))
          \<and> trace (snd (clean_previous_outputs w s)) = trace s
          \<and> (\<forall>q. fs (snd (clean_previous_outputs w s)) q =
                (if prefix (DIST_DIR w) q \<and> fs s (DIST_DIR w) \<noteq> None
                    \<or> prefix (BUILD_DIR w) q \<and> fs s (BUILD_DIR w) \<noteq> None
                 then None else fs s q)))
     \<and> (fs s (DIST_DIR w) = None \<and> fs s (BUILD_DIR w) = None
            \<longrightarrow> clean_previous_outputs w s = (Inr (), s))
     \<and> (\<forall>a1 s1 py s2.
            fst (clean_previous_outputs w s) = Inr ()
            \<and> ensure_backend_sources w a (snd (clean_previous_outputs w s)) = (Inr (), a1, s1)
            \<and> ensure_venv w (python a1) s1 = (Inr py, s2)
            \<and> \<not> is_file (fs s2 (DIST_DIR w)) \<and> \<not> is_file (fs s2 (BUILD_DIR w))
            \<and> ancestors_ok (fs s2) (DIST_DIR w) \<longrightarrow>
            (\<exists>t. fs t (DIST_DIR w) = Some Dir \<and> fs t (BUILD_DIR w) = Some Dir
                 \<and> trace t = trace s2
                 \<and> (\<forall>q. fs s2 q \<noteq> None \<longrightarrow> fs t q = fs s2 q)
                 \<and> main w a s =
                     (case run w
                        [str_of_path py, ''-m'', ''PyInstaller'', ''--noconfirm'', ''--clean'',
                         ''--distpath'',
                         str_of_path (DIST_DIR w @ [''kshana-backend-'' @ compute_output_name w a1]),
                         ''--workpath'', str_of_path (BUILD_DIR w), str_of_path (SPEC_PATH w)]
                        (Some (ROOT w)) [(''PYTHONPATH'', str_of_path (BACKEND_SRC_DIR w))] t of
                        (Inl e, s3) \<Rightarrow> (Inl e, a1, s3)
                      | (Inr u, s3) \<Rightarrow> (Inr (), a1, print success_msg s3))))"
proof -
  have 1: "fst (clean_previous_outputs w s) = Inr ()
            \<longleftrightarrow> \<not> is_file (fs s (DIST_DIR w)) \<and> \<not> is_file (fs s (BUILD_DIR w))"
    by (simp add: clean_result)
  have 2: "main w a s = (Inl e, a, snd (clean_previous_outputs w s))"
    if "fst (clean_previous_outputs w s) = Inl e" for e
    using that assms by (cases "clean_previous_outputs w s") (simp add: main_clean)
  have 3: "main w a s = pipeline w a (snd (clean_previous_outputs w s))"
    if "fst (clean_previous_outputs w s) = Inr ()"
    using that assms by (cases "clean_previous_outputs w s") (simp add: main_clean)
  have 4: "fs (snd (clean_previous_outputs w s)) q =
                (if prefix (DIST_DIR w) q \<and> fs s (DIST_DIR w) \<noteq> None
                    \<or> prefix (BUILD_DIR w) q \<and> fs s (BUILD_DIR w) \<noteq> None
                 then None else fs s q)"
    if "fst (clean_previous_outputs w s) = Inr ()" for q
    using that dist_build_apart [of w]
    by (auto simp add: clean_result without_fs split: if_splits)
  have 5: "clean_previous_outputs w s = (Inr (), s)"
    if "fs s (DIST_DIR w) = None \<and> fs s (BUILD_DIR w) = None"
    using that by (simp add: clean_result is_file_def without_def)
  have 6: "\<exists>t. fs t (DIST_DIR w) = Some Dir \<and> fs t (BUILD_DIR w) = Some Dir
                 \<and> trace t = trace s2
                 \<and> (\<forall>q. fs s2 q \<noteq> None \<longrightarrow> fs t q = fs s2 q)
                 \<and> main w a s =
                     (case run w
                        [str_of_path py, ''-m'', ''PyInstaller'', ''--noconfirm'', ''--clean'',
                         ''--distpath'',
                         str_of_path (DIST_DIR w @ [''kshana-backend-'' @ compute_output_name w a1]),
                         ''--workpath'', str_of_path (BUILD_DIR w), str_of_path (SPEC_PATH w)]
                        (Some (ROOT w)) [(''PYTHONPATH'', str_of_path (BACKEND_SRC_DIR w))] t of
                        (Inl e, s3) \<Rightarrow> (Inl e, a1, s3)
                      | (Inr u, s3) \<Rightarrow> (Inr (), a1, print success_msg s3))"
    if ok: "fst (clean_previous_outputs w s) = Inr ()"
      and acq: "ensure_backend_sources w a (snd (clean_previous_outputs w s)) = (Inr (), a1, s1)"
      and prov: "ensure_venv w (python a1) s1 = (Inr py, s2)"
      and d: "\<not> is_file (fs s2 (DIST_DIR w))" and b: "\<not> is_file (fs s2 (BUILD_DIR w))"
      and anc: "ancestors_ok (fs s2) (DIST_DIR w)"
    for a1 s1 py s2
  proof -
    from build_bundle_creates [OF d b anc, of py "compute_output_name w a1"] obtain t where
      bb: "build_bundle w py (compute_output_name w a1) s2
             = run w (pyinstaller_cmd w py (compute_output_name w a1)) (Some (ROOT w))
                 [(''PYTHONPATH'', str_of_path (BACKEND_SRC_DIR w))] t"
      and t: "fs t (DIST_DIR w) = Some Dir" "fs t (BUILD_DIR w) = Some Dir" "trace t = trace s2"
        "\<forall>q. fs s2 q \<noteq> None \<longrightarrow> fs t q = fs s2 q"
      by blast
    have "main w a s =
            (case run w (pyinstaller_cmd w py (compute_output_name w a1)) (Some (ROOT w))
                 [(''PYTHONPATH'', str_of_path (BACKEND_SRC_DIR w))] t of
               (Inl e, s3) \<Rightarrow> (Inl e, a1, s3)
             | (Inr u, s3) \<Rightarrow> (Inr (), a1, print success_msg s3))"
      by (simp add: 3 [OF ok] pipeline_def acq prov bb)
    with t show ?thesis unfolding pyinstaller_cmd_def by blast
  qed
  show ?thesis
    using 1 2 3 4 5 6 clean_trace [of w s] by blast
qed

lemma full_run:
  "fst (clean_previous_outputs build_world built_state) = Inr ()"
  "fst (ensure_backend_sources build_world clean_args
          (snd (clean_previous_outputs build_world built_state))) = Inr ()"
  "fst (snd (ensure_backend_sources build_world clean_args
          (snd (clean_previous_outputs build_world built_state)))) = clean_args"
  "fst (ensure_venv build_world ''/usr/bin/python3''
          (snd (snd (ensure_backend_sources build_world clean_args
             (snd (clean_previous_outputs build_world built_state))))))
     = Inr [''home'', ''dev'', ''kshana-desktop'', ''backend-build'', ''.venv'', ''bin'', ''python3'']"
  "\<not> is_file (fs (snd (ensure_venv build_world ''/usr/bin/python3''
          (snd (snd (ensure_backend_sources build_world clean_args
             (snd (clean_previous_outputs build_world built_state)))))))
        (DIST_DIR build_world))"
  "\<not> is_file (fs (snd (ensure_venv build_world ''/usr/bin/python3''
          (snd (snd (ensure_backend_sources build_world clean_args
             (snd (clean_previous_outputs build_world built_state)))))))
        (BUILD_DIR build_world))"
  "ancestors_ok (fs (snd (ensure_venv build_world ''/usr/bin/python3''
          (snd (snd (ensure_backend_sources build_world clean_args
             (snd (clean_previous_outputs build_world built_state))))))))
        (DIST_DIR build_world)"
  by (simp_all add: run_defs)

lemma full_run_result: "fst (main build_world clean_args built_state) = Inr ()"
  by (simp add: run_defs lower_linux)

lemma full_run_commands:
  "executed (trace (snd (snd (main build_world clean_args built_state)))) =
     [[''git'', ''clone'', ''https://github.com/anveshane/kshana.git'',
       ''/home/dev/kshana-desktop/backend-build/kshana''],
      [''git'', ''checkout'', ''v1.2''],
      [''/usr/bin/python3'', ''-m'', ''venv'', ''/home/dev/kshana-desktop/backend-build/.venv''],
      [''/home/dev/kshana-desktop/backend-build/.venv/bin/python3'', ''-m'', ''pip'', ''install'',
       ''--upgrade'', ''pip'', ''wheel'', ''setuptools''],
      [''/home/dev/kshana-desktop/backend-build/.venv/bin/python3'', ''-m'', ''pip'', ''install'',
       ''-r'', ''/home/dev/kshana-desktop/backend-build/requirements.txt''],
      [''/home/dev/kshana-desktop/backend-build/.venv/bin/python3'', ''-m'', ''PyInstaller'',
       ''--noconfirm'', ''--clean'', ''--distpath'',
       ''/home/dev/kshana-desktop/backend-build/dist/kshana-backend-linux'', ''--workpath'',
       ''/home/dev/kshana-desktop/backend-build/build-artifacts'',
       ''/home/dev/kshana-desktop/backend-build/kshana.spec'']]"
  by (simp add: run_defs lower_linux)

lemma full_run_fs:
  "fs (snd (snd (main build_world clean_args built_state))) (DIST_DIR build_world) = Some Dir"
  "fs (snd (snd (main build_world clean_args built_state))) (BUILD_DIR build_world) = Some Dir"
  "fs (snd (snd (main build_world clean_args built_state)))
     (DIST_DIR build_world @ [''kshana-backend-linux'']) = None"
  "fs (snd (snd (main build_world clean_args built_state)))
     (BUILD_DIR build_world @ [''kshana.toc'']) = None"
  by (simp_all add: run_defs lower_linux)

theorem clean_then_build_witness:
  "fst (clean_previous_outputs build_world built_state) = Inr ()
   \<and> (\<exists>t. fs t (DIST_DIR build_world) = Some Dir \<and> fs t (BUILD_DIR build_world) = Some Dir
          \<and> main build_world clean_args built_state =
              (case run build_world
                 [''/home/dev/kshana-desktop/backend-build/.venv/bin/python3'', ''-m'',
                  ''PyInstaller'', ''--noconfirm'', ''--clean'', ''--distpath'',
                  ''/home/dev/kshana-desktop/backend-build/dist/kshana-backend-linux'',
                  ''--workpath'', ''/home/dev/kshana-desktop/backend-build/build-artifacts'',
                  ''/home/dev/kshana-desktop/backend-build/kshana.spec'']
                 (Some (ROOT build_world))
                 [(''PYTHONPATH'', ''/home/dev/kshana-desktop/backend-build/kshana'')] t of
                 (Inl e, s3) \<Rightarrow> (Inl e, clean_args, s3)
               | (Inr u, s3) \<Rightarrow> (Inr (), clean_args, print success_msg s3)))
   \<and> fst (main build_world clean_args built_state) = Inr ()
   \<and> executed (trace (snd (snd (main build_world clean_args built_state)))) =
       [[''git'', ''clone'', ''https://github.com/anveshane/kshana.git'',
         ''/home/dev/kshana-desktop/backend-build/kshana''],
        [''git'', ''checkout'', ''v1.2''],
        [''/usr/bin/python3'', ''-m'', ''venv'', ''/home/dev/kshana-desktop/backend-build/.venv''],
        [''/home/dev/kshana-desktop/backend-build/.venv/bin/python3'', ''-m'', ''pip'', ''install'',
         ''--upgrade'', ''pip'', ''wheel'', ''setuptools''],
        [''/home/dev/kshana-desktop/backend-build/.venv/bin/python3'', ''-m'', ''pip'', ''install'',
         ''-r'', ''/home/dev/kshana-desktop/backend-build/requirements.txt''],
        [''/home/dev/kshana-desktop/backend-build/.venv/bin/python3'', ''-m'', ''PyInstaller'',
         ''--noconfirm'', ''--clean'', ''--distpath'',
         ''/home/dev/kshana-desktop/backend-build/dist/kshana-backend-linux'', ''--workpath'',
         ''/home/dev/kshana-desktop/backend-build/build-artifacts'',
         ''/home/dev/kshana-desktop/backend-build/kshana.spec'']]
   \<and> fs (snd (snd (main build_world clean_args built_state))) (DIST_DIR build_world) = Some Dir
   \<and> fs (snd (snd (main build_world clean_args built_state))) (BUILD_DIR build_world) = Some Dir
   \<and> fs (snd (snd (main build_world clean_args built_state)))
        (DIST_DIR build_world @ [''kshana-backend-linux'']) = None
   \<and> fs (snd (snd (main build_world clean_args built_state)))
        (BUILD_DIR build_world @ [''kshana.toc'']) = None"
proof -
  let ?s0 = "snd (clean_previous_outputs build_world built_state)"
  let ?acq = "ensure_backend_sources build_world clean_args ?s0"
  let ?prov = "ensure_venv build_world ''/usr/bin/python3'' (snd (snd ?acq))"
  let ?py = "[''home'', ''dev'', ''kshana-desktop'', ''backend-build'', ''.venv'', ''bin'', ''python3'']"
  have c: "clean clean_args" by (simp add: clean_args_def)
  have p: "python clean_args = ''/usr/bin/python3''" by (simp add: clean_args_def demo_args_def)
  have acq: "?acq = (Inr (), clean_args, snd (snd ?acq))"
    using full_run(2,3) by (simp add: prod_eq_iff)
  have prov: "ensure_venv build_world (python clean_args) (snd (snd ?acq)) = (Inr ?py, snd ?prov)"
    using full_run(4) by (simp add: prod_eq_iff p)
  have "\<exists>t. fs t (DIST_DIR build_world) = Some Dir \<and> fs t (BUILD_DIR build_world) = Some Dir
          \<and> main build_world clean_args built_state =
              (case run build_world
                 [str_of_path ?py, ''-m'', ''PyInstaller'', ''--noconfirm'', ''--clean'',
                  ''--distpath'',
                  str_of_path (DIST_DIR build_world
                     @ [''kshana-backend-'' @ compute_output_name build_world clean_args]),
                  ''--workpath'', str_of_path (BUILD_DIR build_world),
                  str_of_path (SPEC_PATH build_world)]
                 (Some (ROOT build_world))
                 [(''PYTHONPATH'', str_of_path (BACKEND_SRC_DIR build_world))] t of
                 (Inl e, s3) \<Rightarrow> (Inl e, clean_args, s3)
               | (Inr u, s3) \<Rightarrow> (Inr (), clean_args, print success_msg s3))"
    using clean_then_build [OF c, of build_world built_state] full_run(1) acq prov full_run(5,6,7)
    by blast
  moreover have "str_of_path ?py = ''/home/dev/kshana-desktop/backend-build/.venv/bin/python3''"
    "str_of_path (DIST_DIR build_world
        @ [''kshana-backend-'' @ compute_output_name build_world clean_args])
       = ''/home/dev/kshana-desktop/backend-build/dist/kshana-backend-linux''"
    "str_of_path (BUILD_DIR build_world) = ''/home/dev/kshana-desktop/backend-build/build-artifacts''"
    "str_of_path (SPEC_PATH build_world) = ''/home/dev/kshana-desktop/backend-build/kshana.spec''"
    "str_of_path (BACKEND_SRC_DIR build_world) = ''/home/dev/kshana-desktop/backend-build/kshana''"
    by (simp_all add: run_defs lower_linux)
  ultimately show ?thesis
    using full_run(1) full_run_result full_run_commands full_run_fs by simp
qed

subsection \<open>The clone in the workflow\<close>

lemma main_after_clean:
  assumes "clean a \<longrightarrow> \<not> is_file (fs s (DIST_DIR w)) \<and> \<not> is_file (fs s (BUILD_DIR w))"
  shows "main w a s = pipeline w a (if clean a then snd (clean_previous_outputs w s) else s)"
proof (cases "clean a")
  case True
  with assms show ?thesis by (simp add: main_clean clean_result)
next
  case False
  then show ?thesis by (simp add: main_no_clean)
qed

text \<open>
  C1 (as amended). When \<^verbatim>\<open>--source-path\<close> is not supplied, nothing exists at
  \<^verbatim>\<open>ROOT.parent.parent / "kshana"\<close>, nothing is staged, and the clean step, if asked for,
  does not fail (neither the output path nor the intermediate path is a regular file), the
  first subprocess the workflow launches is the clone of the remote repository into the
  staging directory; the checkout of the requested revision follows it exactly when the
  clone succeeded and that revision is not empty and differs from \<^verbatim>\<open>main\<close>; and whatever
  the workflow launches after that is neither a clone nor a checkout. Source acquisition
  alone, from such a state, launches the clone and that checkout and nothing else.
\<close>

theorem clone_when_nothing_local:
  assumes "source_path a = None"
    and "\<not> exists s (local_candidate w)"
    and "\<not> exists s (BACKEND_SRC_DIR w)"
    and "clean a \<longrightarrow> \<not> is_file (fs s (DIST_DIR w)) \<and> \<not> is_file (fs s (BUILD_DIR w))"
  shows "(\<exists>rest.
            executed (trace (snd (snd (main w a s)))) =
              executed (trace s)
              @ [''git'', ''clone'', ''https://github.com/anveshane/kshana.git'',
                 str_of_path (ROOT w @ [''kshana''])]
              # (if fst (subprocess_run w
                          [''git'', ''clone'', ''https://github.com/anveshane/kshana.git'',
                           str_of_path (ROOT w @ [''kshana''])]
                          None (fs (if clean a then snd (clean_previous_outputs w s) else s))) = None
                     \<and> ref a \<noteq> [] \<and> ref a \<noteq> ''main''
                 then [[''git'', ''checkout'', ref a]] else [])
              @ rest
            \<and> list_all (\<lambda>c. \<not> is_git_clone c \<and> \<not> is_git_checkout c) rest)
     \<and> executed (trace (snd (snd (ensure_backend_sources w a s)))) =
              executed (trace s)
              @ [''git'', ''clone'', ''https://github.com/anveshane/kshana.git'',
                 str_of_path (ROOT w @ [''kshana''])]
              # (if fst (subprocess_run w
                          [''git'', ''clone'', ''https://github.com/anveshane/kshana.git'',
                           str_of_path (ROOT w @ [''kshana''])]
                          None (fs s)) = None
                     \<and> ref a \<noteq> [] \<and> ref a \<noteq> ''main''
                 then [[''git'', ''checkout'', ref a]] else [])"
proof -
  let ?s0 = "if clean a then snd (clean_previous_outputs w s) else s"
  have m: "main w a s = pipeline w a ?s0" by (rule main_after_clean [OF assms(4)])
  have t0: "trace ?s0 = trace s" by (simp add: clean_trace)
  have n1: "\<not> exists ?s0 (local_candidate w)"
    using assms(2) clean_creates_nothing [of w s "local_candidate w"] by auto
  have n2: "\<not> exists ?s0 (BACKEND_SRC_DIR w)"
    using assms(3) clean_creates_nothing [of w s "BACKEND_SRC_DIR w"] by auto
  note acq = clone_branch_executed [OF assms(1) n1 n2]
  from pipeline_launches [of w a ?s0] obtain rest where
    r: "executed (trace (snd (snd (pipeline w a ?s0))))
          = executed (trace (snd (snd (ensure_backend_sources w a ?s0)))) @ rest"
    and l: "list_all module_run rest"
    by (auto simp add: launches_only_def)
  from l have l': "list_all (\<lambda>c. \<not> is_git_clone c \<and> \<not> is_git_checkout c) rest"
    using module_run_not_git by (auto simp add: list_all_iff)
  have "executed (trace (snd (snd (main w a s)))) =
              executed (trace s)
              @ [''git'', ''clone'', ''https://github.com/anveshane/kshana.git'',
                 str_of_path (ROOT w @ [''kshana''])]
              # (if fst (subprocess_run w
                          [''git'', ''clone'', ''https://github.com/anveshane/kshana.git'',
                           str_of_path (ROOT w @ [''kshana''])]
                          None (fs ?s0)) = None
                     \<and> ref a \<noteq> [] \<and> ref a \<noteq> ''main''
                 then [[''git'', ''checkout'', ref a]] else [])
              @ rest"
    unfolding m r acq t0
    by (simp add: git_clone_cmd_def git_checkout_cmd_def REPO_URL_def BACKEND_SRC_DIR_def)
  with l' have first: "\<exists>rest.
            executed (trace (snd (snd (main w a s)))) =
              executed (trace s)
              @ [''git'', ''clone'', ''https://github.com/anveshane/kshana.git'',
                 str_of_path (ROOT w @ [''kshana''])]
              # (if fst (subprocess_run w
                          [''git'', ''clone'', ''https://github.com/anveshane/kshana.git'',
                           str_of_path (ROOT w @ [''kshana''])]
                          None (fs ?s0)) = None
                     \<and> ref a \<noteq> [] \<and> ref a \<noteq> ''main''
                 then [[''git'', ''checkout'', ref a]] else [])
              @ rest
            \<and> list_all (\<lambda>c. \<not> is_git_clone c \<and> \<not> is_git_checkout c) rest"
    by blast
  have second: "executed (trace (snd (snd (ensure_backend_sources w a s)))) =
              executed (trace s)
              @ [''git'', ''clone'', ''https://github.com/anveshane/kshana.git'',
                 str_of_path (ROOT w @ [''kshana''])]
              # (if fst (subprocess_run w
                          [''git'', ''clone'', ''https://github.com/anveshane/kshana.git'',
                           str_of_path (ROOT w @ [''kshana''])]
                          None (fs s)) = None
                     \<and> ref a \<noteq> [] \<and> ref a \<noteq> ''main''
                 then [[''git'', ''checkout'', ref a]] else [])"
    unfolding clone_branch_executed [OF assms(1,2,3)]
    by (simp add: git_clone_cmd_def git_checkout_cmd_def REPO_URL_def BACKEND_SRC_DIR_def)
  from first second show ?thesis by blast
qed

lemma demo_run_commands:
  "executed (trace (snd (snd (main demo_world demo_args fresh_state)))) =
     [[''git'', ''clone'', ''https://github.com/anveshane/kshana.git'',
       ''/home/dev/kshana-desktop/backend-build/kshana''],
      [''git'', ''checkout'', ''v1.2'']]"
  "fst (main demo_world demo_args fresh_state)
     = Inl (RuntimeError (version_mismatch_msg ''/usr/bin/python3'' ''3.9.18''))"
  by (simp_all add: run_defs)

theorem clone_when_nothing_local_witness:
  "(\<exists>rest. executed (trace (snd (snd (main demo_world demo_args fresh_state)))) =
       [''git'', ''clone'', ''https://github.com/anveshane/kshana.git'',
        ''/home/dev/kshana-desktop/backend-build/kshana'']
       # [''git'', ''checkout'', ''v1.2''] # rest
       \<and> list_all (\<lambda>c. \<not> is_git_clone c \<and> \<not> is_git_checkout c) rest)
   \<and> executed (trace (snd (snd (main demo_world demo_args fresh_state)))) =
       [[''git'', ''clone'', ''https://github.com/anveshane/kshana.git'',
         ''/home/dev/kshana-desktop/backend-build/kshana''],
        [''git'', ''checkout'', ''v1.2'']]
   \<and> executed (trace (snd (snd (ensure_backend_sources demo_world demo_args fresh_state)))) =
       [[''git'', ''clone'', ''https://github.com/anveshane/kshana.git'',
         ''/home/dev/kshana-desktop/backend-build/kshana''],
        [''git'', ''checkout'', ''v1.2'']]"
proof -
  have nc: "clean demo_args \<longrightarrow> \<not> is_file (fs fresh_state (DIST_DIR demo_world))
              \<and> \<not> is_file (fs fresh_state (BUILD_DIR demo_world))"
    by (simp add: demo_args_def)
  have ok: "fst (subprocess_run demo_world [''git'', ''clone'', u, p] None f) = None" for u p f
    by (simp add: demo_world_def)
  have v: "ref demo_args = ''v1.2''" "trace fresh_state = []"
    "str_of_path (ROOT demo_world @ [''kshana'']) = ''/home/dev/kshana-desktop/backend-build/kshana''"
    by (simp_all add: demo_args_def fresh_state_def str_of_path_def demo_world_def demo_root_def)
  from clone_when_nothing_local [OF demo_no_source conjunct1 [OF fresh_nothing]
      conjunct2 [OF fresh_nothing] nc]
  show ?thesis
    by (simp add: ok v demo_run_commands(1))
qed

lemma clean_failure_run:
  "source_path clean_args = None"
  "\<not> exists dist_file_state (local_candidate demo_world)"
  "\<not> exists dist_file_state (BACKEND_SRC_DIR demo_world)"
  "executed (trace (snd (snd (main demo_world clean_args dist_file_state)))) = []"
  by (simp_all add: run_defs dist_file_state_def)

text \<open>
  Without the condition on the sibling directory the statement fails: with a checkout of the
  backend next to the repository, nothing staged and no \<^verbatim>\<open>--source-path\<close>, source
  acquisition launches no subprocess at all, and neither does the workflow, which here ends
  at the version check. Without the condition on the clean step it fails too: with
  \<^verbatim>\<open>--clean\<close> and a regular file where the output directory should be, no sibling and
  nothing staged, the workflow ends in the clean step and launches nothing.
\<close>

theorem clone_skipped_counterexample:
  "source_path demo_args = None
   \<and> \<not> exists sibling_state (BACKEND_SRC_DIR demo_world)
   \<and> executed (trace (snd (snd (ensure_backend_sources demo_world demo_args sibling_state)))) = []
   \<and> executed (trace (snd (snd (main demo_world demo_args sibling_state)))) = []
   \<and> source_path clean_args = None
   \<and> \<not> exists dist_file_state (local_candidate demo_world)
   \<and> \<not> exists dist_file_state (BACKEND_SRC_DIR demo_world)
   \<and> executed (trace (snd (snd (main demo_world clean_args dist_file_state)))) = []"
proof -
  have a: "executed (trace (snd (snd (ensure_backend_sources demo_world demo_args sibling_state)))) = []"
    using local_source_no_subprocess [of demo_args sibling_state demo_world] sibling_exists
    by (simp add: sibling_state_def add_sibling_def fresh_state_def)
  have nc: "\<not> clean demo_args" by (simp add: demo_args_def)
  have chk: "check_output demo_world (version_query py) = Inr (''3.9.18'' @ [CHR 0x0A])" for py
    by (simp add: demo_world_def)
  have old: "parse_version (int_max_str_digits demo_world) (strip (''3.9.18'' @ [CHR 0x0A])) = Inr (3, 9, 18)"
    by (simp add: run_defs)
  have fails: "ensure_venv demo_world py s1
                 = (Inl (RuntimeError (version_mismatch_msg py (strip (''3.9.18'' @ [CHR 0x0A])))), s1)"
    for py s1
    by (rule version_below_rejected [OF chk old]) simp
  have "snd (snd (pipeline demo_world demo_args sibling_state))
          = snd (snd (ensure_backend_sources demo_world demo_args sibling_state))"
    by (simp add: pipeline_def fails split: prod.splits sum.splits)
  with a nc show ?thesis
    by (simp add: main_no_clean demo_no_source sibling_not_staged clean_failure_run)
qed

subsection \<open>Copies of a tree into itself\<close>

lemmas copy_defs =
  copytree_def copied_entry_def runs_into_itself_def makedirs_def ancestors_ok_def is_file_def
  ignored_def suffix_to_prefix nest_state_def

text \<open>Into a new child of the source: the copy ends, and the child holds the old entries.\<close>

lemma copytree_into_child:
  "fst (copytree w [''src''] [''src'', ''k''] nest_state) = Inr ()"
  "fs (snd (copytree w [''src''] [''src'', ''k''] nest_state)) [''src'', ''k''] = Some Dir"
  "fs (snd (copytree w [''src''] [''src'', ''k''] nest_state)) [''src'', ''k'', ''f.txt'']
     = Some (File ''x'')"
  "fs (snd (copytree w [''src''] [''src'', ''k''] nest_state)) [''src'', ''k'', ''a'', ''g.txt'']
     = Some (File ''y'')"
  "fs (snd (copytree w [''src''] [''src'', ''k''] nest_state)) [''src'', ''k'', ''k''] = None"
  by (simp_all add: copy_defs)

text \<open>Below a directory that did not exist: the copy ends as well.\<close>

lemma copytree_below_new_directory:
  "fst (copytree w [''src''] [''src'', ''zz'', ''k''] nest_state) = Inr ()"
  "fs (snd (copytree w [''src''] [''src'', ''zz'', ''k''] nest_state)) [''src'', ''zz''] = Some Dir"
  "fs (snd (copytree w [''src''] [''src'', ''zz'', ''k''] nest_state))
     [''src'', ''zz'', ''k'', ''a'', ''g.txt''] = Some (File ''y'')"
  "fs (snd (copytree w [''src''] [''src'', ''zz'', ''k''] nest_state))
     [''src'', ''zz'', ''k'', ''zz''] = None"
  by (simp_all add: copy_defs)

text \<open>Below an existing directory of the source: the copy runs into its own output.\<close>

lemma copytree_below_old_directory:
  "copytree w [''src''] [''src'', ''a'', ''k''] nest_state
     = (Inl (OtherError ''copytree into itself''),
        nest_state\<lparr>fs := failed_copy w [''src''] [''src'', ''a'', ''k''] (fs nest_state)\<rparr>)"
  by (simp add: copy_defs)

text \<open>
  Behind an ignored name: the copy ends, and a directory made on the way to the destination
  is copied as an empty directory.
\<close>

lemma copytree_behind_ignored_name:
  "fst (copytree w [''src''] [''src'', ''a'', ''b'', ''dist'', ''k''] nest_state) = Inr ()"
  "fs (snd (copytree w [''src''] [''src'', ''a'', ''b'', ''dist'', ''k''] nest_state))
     [''src'', ''a'', ''b'', ''dist'', ''k'', ''a'', ''g.txt''] = Some (File ''y'')"
  "fs (snd (copytree w [''src''] [''src'', ''a'', ''b'', ''dist'', ''k''] nest_state))
     [''src'', ''a'', ''b'', ''dist'', ''k'', ''a'', ''b''] = Some Dir"
  "fs (snd (copytree w [''src''] [''src'', ''a'', ''b'', ''dist'', ''k''] nest_state))
     [''src'', ''a'', ''b'', ''dist'', ''k'', ''a'', ''b'', ''dist''] = None"
  by (simp_all add: copy_defs)

text \<open>The version check reads the separators 0x1C to 0x1F inside a part as an error.\<close>

lemma separator_in_part:
  "parse_version 4300 (strip (''3.'' @ [CHR 0x1C] @ ''9'' @ [CHR 0x1F] @ ''.1'' @ [CHR 0x0A]))
     = Inl ValueError"
  "parse_version 4300 (strip ([CHR 0x1C] @ ''3. 9.1'' @ [CHR 0x1F, CHR 0x0A])) = Inr (3, 9, 1)"
  by (simp_all add: run_defs)

end
